theory Spec2Isabelle
  imports Complex_Main "HOL-Library.Char_ord" "HOL-Library.List_Lexorder"
    "HOL-Library.Option_ord" "HOL-Library.Sublist"
begin

section \<open>Data model\<close>

text \<open>
  The pydantic shape \<^verbatim>\<open>EmployeeBase\<close> of \<^verbatim>\<open>schemas/employee.py\<close>; \<^verbatim>\<open>EmployeeCreate\<close>
  adds nothing to it. \<^verbatim>\<open>Optional[...]\<close> fields are options, \<^verbatim>\<open>float\<close> is idealised as
  \<open>real\<close> (no theorem below depends on floating-point rounding), and a \<^verbatim>\<open>str\<close> is the
  \<open>string\<close> of the bytes of its UTF-8 encoding, which is what the table stores and what the
  export writes.
\<close>

record EmployeeBase =
  name :: string
  role :: string
  salary :: real
  email :: "string option"
  department :: "string option"
  performance_rating :: "real option"
  skills :: "string option"

type_synonym EmployeeCreate = EmployeeBase

text \<open>
  A row of the table \<^verbatim>\<open>employees\<close> (\<^verbatim>\<open>db/models.py\<close>), which is also the response shape
  \<^verbatim>\<open>EmployeeResponse(EmployeeBase)\<close>: the base fields plus \<^verbatim>\<open>id\<close>, \<^verbatim>\<open>created_at\<close> and
  \<^verbatim>\<open>updated_at\<close>. Timestamps are readings of the database clock in seconds.
\<close>

record Employee = EmployeeBase +
  id_emp :: int
  created_at :: "int option"
  updated_at :: "int option"

text \<open>
  \<^verbatim>\<open>EmployeeUpdate\<close>: every field is optional, and pydantic remembers which fields the
  request body has set (\<^verbatim>\<open>model_dump(exclude_unset=True)\<close>). A field is therefore absent,
  explicitly \<^verbatim>\<open>null\<close>, or a value.
\<close>

datatype 'a payload_field = Unset | Null | Val 'a

record EmployeeUpdate =
  upd_name :: "string payload_field"
  upd_role :: "string payload_field"
  upd_salary :: "real payload_field"
  upd_email :: "string payload_field"
  upd_department :: "string payload_field"
  upd_performance_rating :: "real payload_field"
  upd_skills :: "string payload_field"

text \<open>The table, in rowid order (the order of a SQLite table scan).\<close>

type_synonym db = "Employee list"

text \<open>
  What a handler can raise: \<^verbatim>\<open>HTTPException(status_code, detail)\<close>, the request validation of
  the \<^verbatim>\<open>Query(...)\<close> bounds (HTTP 422), and the exceptions of the layers below that surface
  as HTTP 500: a violated column constraint, the use of a session whose flush has failed,
  an integer parameter that does not fit the 64 bits of an SQLite integer, and a statement
  that the engine refuses.
\<close>

datatype error =
    HTTPException nat string
  | RequestValidationError
  | IntegrityError
  | PendingRollbackError
  | OverflowError
  | OperationalError

abbreviation NotFound :: error where
  "NotFound \<equiv> HTTPException 404 ''Employee not found''"

abbreviation DuplicateEmail :: error where
  "DuplicateEmail \<equiv> HTTPException 400 ''Email already registered''"

section \<open>The query interface\<close>

text \<open>\<^verbatim>\<open>Query.first()\<close>: the first row of the result, or \<^verbatim>\<open>None\<close>.\<close>

fun first :: "'a list \<Rightarrow> 'a option" where
  "first [] = None"
| "first (x # xs) = Some x"

text \<open>Python truthiness of an \<^verbatim>\<open>Optional[str]\<close>: neither \<^verbatim>\<open>None\<close> nor the empty string.\<close>

fun truthy :: "string option \<Rightarrow> bool" where
  "truthy None = False"
| "truthy (Some s) = (s \<noteq> [])"

text \<open>
  \<^verbatim>\<open>db.query(Employee).filter(Employee.email == e)\<close> for an \<^verbatim>\<open>e\<close> that is not \<^verbatim>\<open>None\<close>
  (both call sites are guarded by the truthiness of \<^verbatim>\<open>e\<close>; on \<^verbatim>\<open>None\<close> SQL equality
  selects nothing).
\<close>

definition by_email :: "string option \<Rightarrow> db \<Rightarrow> Employee list" where
  "by_email e rows = (case e of None \<Rightarrow> [] | Some a \<Rightarrow> filter (\<lambda>r. email r = Some a) rows)"

definition by_id :: "int \<Rightarrow> db \<Rightarrow> Employee list" where
  "by_id i rows = filter (\<lambda>r. id_emp r = i) rows"

text \<open>
  The integers that can be bound to a statement: SQLite's are signed and 64 bits wide, and the
  driver raises \<^verbatim>\<open>OverflowError\<close> on any other Python \<^verbatim>\<open>int\<close>.
\<close>

definition sqlite_int :: "int \<Rightarrow> bool" where
  "sqlite_int i = (- (2 ^ 63) \<le> i \<and> i < 2 ^ 63)"

text \<open>
  The integer primary key of SQLite without \<^verbatim>\<open>AUTOINCREMENT\<close>: one more than the largest
  rowid in the table, 1 on an empty table. (At the largest rowid, \<open>2\<^sup>6\<^sup>3 - 1\<close>, SQLite picks
  an unused one at random instead; no table gets there through the handlers, and that
  case is not modelled.)
\<close>

definition next_id :: "db \<Rightarrow> int" where
  "next_id rows = (if rows = [] then 1 else Max (set (map id_emp rows)) + 1)"

text \<open>
  The \<^verbatim>\<open>UNIQUE\<close> constraint on the column \<^verbatim>\<open>email\<close> (\<^verbatim>\<open>unique=True\<close>): a non-null email
  may not be stored twice; \<^verbatim>\<open>NULL\<close>s never collide.
\<close>

definition unique_violation :: "string option \<Rightarrow> db \<Rightarrow> bool" where
  "unique_violation e rows = (e \<noteq> None \<and> e \<in> set (map email rows))"

text \<open>
  The flush of \<^verbatim>\<open>db.add(Employee(**payload.model_dump()))\<close>: one \<^verbatim>\<open>INSERT\<close>. The mapping layer
  leaves attributes that are \<^verbatim>\<open>None\<close> out of the statement, so that \<^verbatim>\<open>performance_rating\<close>
  falls back to the column's \<^verbatim>\<open>default=0.0\<close>; \<^verbatim>\<open>created_at\<close> is the server default
  \<^verbatim>\<open>now()\<close>, \<^verbatim>\<open>updated_at\<close> stays \<^verbatim>\<open>NULL\<close>.
\<close>

definition new_row :: "int \<Rightarrow> EmployeeCreate \<Rightarrow> db \<Rightarrow> Employee" where
  "new_row now e rows =
     \<lparr>name = name e, role = role e, salary = salary e, email = email e,
      department = department e,
      performance_rating = (case performance_rating e of None \<Rightarrow> Some 0 | Some v \<Rightarrow> Some v),
      skills = skills e,
      id_emp = next_id rows, created_at = Some now, updated_at = None\<rparr>"

definition flush_insert :: "int \<Rightarrow> EmployeeCreate \<Rightarrow> db \<Rightarrow> error + Employee \<times> db" where
  "flush_insert now e rows =
     (if unique_violation (email e) rows then Inl IntegrityError
      else Inr (new_row now e rows, rows @ [new_row now e rows]))"

section \<open>create\_employee\<close>

definition create_employee :: "int \<Rightarrow> EmployeeCreate \<Rightarrow> db \<Rightarrow> (error + Employee) \<times> db" where
  "create_employee now employee rows =
     (if truthy (email employee) \<and> first (by_email (email employee) rows) \<noteq> None
      then (Inl DuplicateEmail, rows)
      else (case flush_insert now employee rows of
              Inl e \<Rightarrow> (Inl e, rows)
            | Inr (db_employee, rows') \<Rightarrow> (Inr db_employee, rows')))"

section \<open>update\_employee\<close>

text \<open>
  Reading an attribute of the update payload: a field that the request did not set has its
  declared default \<^verbatim>\<open>None\<close>.
\<close>

fun attr :: "'a payload_field \<Rightarrow> 'a option" where
  "attr Unset = None"
| "attr Null = None"
| "attr (Val v) = Some v"

text \<open>
  One column's share of the loop \<^verbatim>\<open>for field, value in update_data.items(): setattr(...)\<close>:
  \<^verbatim>\<open>update_data\<close> holds the fields the request has set, a \<^verbatim>\<open>null\<close> among them as \<^verbatim>\<open>None\<close>.
\<close>

fun setattr :: "'a payload_field \<Rightarrow> 'a option \<Rightarrow> 'a option" where
  "setattr Unset old = old"
| "setattr Null old = None"
| "setattr (Val v) old = Some v"

text \<open>
  \<^verbatim>\<open>db.commit()\<close> after the loop. The unit of work compares every assigned attribute with
  the value it loaded and emits an \<^verbatim>\<open>UPDATE\<close> only when one of them differs; the column
  default \<^verbatim>\<open>onupdate=func.now()\<close> of \<^verbatim>\<open>updated_at\<close> is part of that statement, so it
  fires only then. The statement fails on \<^verbatim>\<open>NULL\<close> in a \<^verbatim>\<open>nullable=False\<close> column and on
  a second use of an email. The primary key makes the row with the id a single one.
\<close>

definition flush_update :: "int \<Rightarrow> Employee \<Rightarrow> EmployeeUpdate \<Rightarrow> db \<Rightarrow> error + Employee \<times> db" where
  "flush_update now db_employee u rows =
     (let name' = setattr (upd_name u) (Some (name db_employee));
          role' = setattr (upd_role u) (Some (role db_employee));
          salary' = setattr (upd_salary u) (Some (salary db_employee));
          email' = setattr (upd_email u) (email db_employee);
          department' = setattr (upd_department u) (department db_employee);
          performance_rating' = setattr (upd_performance_rating u) (performance_rating db_employee);
          skills' = setattr (upd_skills u) (skills db_employee)
      in if name' = Some (name db_employee) \<and> role' = Some (role db_employee)
            \<and> salary' = Some (salary db_employee) \<and> email' = email db_employee
            \<and> department' = department db_employee
            \<and> performance_rating' = performance_rating db_employee
            \<and> skills' = skills db_employee
         then Inr (db_employee, rows)
         else (case (name', role', salary') of
                 (Some n, Some ro, Some s) \<Rightarrow>
                   if email' \<noteq> email db_employee \<and> unique_violation email' rows
                   then Inl IntegrityError
                   else (let r = db_employee\<lparr>name := n, role := ro, salary := s, email := email',
                                   department := department',
                                   performance_rating := performance_rating',
                                   skills := skills', updated_at := Some now\<rparr>
                         in Inr (r, map (\<lambda>x. if id_emp x = id_emp db_employee then r else x) rows))
               | _ \<Rightarrow> Inl IntegrityError))"

definition update_employee ::
  "int \<Rightarrow> int \<Rightarrow> EmployeeUpdate \<Rightarrow> db \<Rightarrow> (error + Employee) \<times> db" where
  "update_employee now employee_id employee_update rows =
     (case first (by_id employee_id rows) of
        None \<Rightarrow> (Inl NotFound, rows)
      | Some db_employee \<Rightarrow>
          if truthy (attr (upd_email employee_update))
             \<and> attr (upd_email employee_update) \<noteq> email db_employee
             \<and> first (by_email (attr (upd_email employee_update)) rows) \<noteq> None
          then (Inl DuplicateEmail, rows)
          else (case flush_update now db_employee employee_update rows of
                  Inl e \<Rightarrow> (Inl e, rows)
                | Inr (r, rows') \<Rightarrow> (Inr r, rows')))"

section \<open>delete\_employee\<close>

text \<open>
  \<^verbatim>\<open>employee_id: int\<close> is any Python integer; one that SQLite cannot hold fails in the
  lookup, when it is bound to the query.
\<close>

definition delete_employee :: "int \<Rightarrow> db \<Rightarrow> (error + string \<times> int) \<times> db" where
  "delete_employee employee_id rows =
     (if \<not> sqlite_int employee_id then (Inl OverflowError, rows)
      else (case first (by_id employee_id rows) of
              None \<Rightarrow> (Inl NotFound, rows)
            | Some db_employee \<Rightarrow>
                (Inr (''Employee deleted successfully'', employee_id),
                 filter (\<lambda>r. id_emp r \<noteq> employee_id) rows)))"

section \<open>bulk\_create\_employees\<close>

text \<open>
  An entry of \<^verbatim>\<open>errors\<close>: \<^verbatim>\<open>{"index", "email", "error": "Email already exists"}\<close> from the
  duplicate check, or \<^verbatim>\<open>{"index", "error": str(e)}\<close> from the \<^verbatim>\<open>except\<close> branch.
\<close>

datatype bulk_error =
    EmailExists nat "string option"
  | Raised nat error

record BulkResult =
  created :: nat
  employee_ids :: "int list"
  errors :: "bulk_error list"

text \<open>
  The state of the loop: the rows the session sees (its own flushed inserts included), the
  lists \<^verbatim>\<open>created\<close> and \<^verbatim>\<open>errors\<close>, and whether a flush has failed. A failed flush rolls the
  transaction back and leaves the session unusable until \<^verbatim>\<open>rollback()\<close>, which the handler
  never calls: every later query and flush raises, and so does the final \<^verbatim>\<open>commit()\<close>.
\<close>

record bulk_state =
  session_rows :: db
  created_ids :: "int list"
  error_list :: "bulk_error list"
  failed :: bool

text \<open>One pass of the loop body for the entry at \<^verbatim>\<open>idx\<close>; \<open>now\<close> is the time of its insert.\<close>

definition bulk_step :: "int \<Rightarrow> nat \<Rightarrow> EmployeeCreate \<Rightarrow> bulk_state \<Rightarrow> bulk_state" where
  "bulk_step now idx emp_data st =
     (if failed st
      then st\<lparr>error_list := error_list st @ [Raised idx PendingRollbackError]\<rparr>
      else if truthy (email emp_data) \<and> first (by_email (email emp_data) (session_rows st)) \<noteq> None
      then st\<lparr>error_list := error_list st @ [EmailExists idx (email emp_data)]\<rparr>
      else (case flush_insert now emp_data (session_rows st) of
              Inl e \<Rightarrow> st\<lparr>error_list := error_list st @ [Raised idx e], failed := True\<rparr>
            | Inr (db_employee, rows') \<Rightarrow>
                st\<lparr>session_rows := rows', created_ids := created_ids st @ [id_emp db_employee]\<rparr>))"

fun bulk_loop :: "(nat \<Rightarrow> int) \<Rightarrow> nat \<Rightarrow> EmployeeCreate list \<Rightarrow> bulk_state \<Rightarrow> bulk_state" where
  "bulk_loop clock idx [] st = st"
| "bulk_loop clock idx (emp_data # rest) st =
     bulk_loop clock (Suc idx) rest (bulk_step (clock idx) idx emp_data st)"

definition bulk_create_employees ::
  "(nat \<Rightarrow> int) \<Rightarrow> EmployeeCreate list \<Rightarrow> db \<Rightarrow> (error + BulkResult) \<times> db" where
  "bulk_create_employees clock employees rows =
     (let st = bulk_loop clock 0 employees
                 \<lparr>session_rows = rows, created_ids = [], error_list = [], failed = False\<rparr>
      in if failed st then (Inl PendingRollbackError, rows)
         else (Inr \<lparr>created = length (created_ids st), employee_ids = created_ids st,
                    errors = error_list st\<rparr>,
               session_rows st))"

section \<open>get\_employees\<close>

text \<open>
  \<^verbatim>\<open>Employee.name.contains(search)\<close> renders as \<^verbatim>\<open>name LIKE '%' || :search || '%'\<close>. The
  \<^verbatim>\<open>LIKE\<close> of SQLite reads the pattern and the column value as C strings, up to the first NUL
  byte, and character by character: a byte from \<^verbatim>\<open>0xC0\<close> on together with the bytes
  \<^verbatim>\<open>0x80..0xBF\<close> that follow it is one character, any other byte is a character by itself.
\<close>

definition c_string :: "string \<Rightarrow> string" where
  "c_string s = takeWhile (\<lambda>c. c \<noteq> CHR 0x00) s"

definition continuation :: "char \<Rightarrow> bool" where
  "continuation c = (CHR 0x80 \<le> c \<and> c \<le> CHR 0xBF)"

function utf8_chars :: "string \<Rightarrow> string list" where
  "utf8_chars [] = []"
| "utf8_chars (c # cs) =
     (if CHR 0xC0 \<le> c
      then (c # takeWhile continuation cs) # utf8_chars (dropWhile continuation cs)
      else [c] # utf8_chars cs)"
  by pat_completeness auto

termination
  by (relation "measure length") (auto simp: length_dropWhile_le less_Suc_eq_le)

text \<open>
  It folds the case of ASCII letters, and \<^verbatim>\<open>%\<close> (any run of characters) and \<^verbatim>\<open>_\<close> (any one
  character) stay wildcards inside \<^verbatim>\<open>search\<close>, which is not escaped. The first argument of
  \<open>like\<close> is the pattern, the second the text, both as lists of characters.
\<close>

definition fold_case :: "char \<Rightarrow> char" where
  "fold_case c =
     (if CHR ''A'' \<le> c \<and> c \<le> CHR ''Z'' then char_of (of_char c + (32::nat)) else c)"

fun like :: "string list \<Rightarrow> string list \<Rightarrow> bool" where
  "like [] s = (s = [])"
| "like (p # ps) [] = (p = ''%'' \<and> like ps [])"
| "like (p # ps) (c # cs) =
     (if p = ''%'' then like ps (c # cs) \<or> like (p # ps) cs
      else (p = ''_'' \<or> map fold_case p = map fold_case c) \<and> like ps cs)"

definition contains :: "string \<Rightarrow> string \<Rightarrow> bool" where
  "contains column search =
     like (utf8_chars (c_string (''%'' @ search @ ''%''))) (utf8_chars (c_string column))"

text \<open>
  SQLite refuses a pattern of more than 50000 bytes when it evaluates it, that is, as soon as
  the table has a row.
\<close>

definition pattern_too_long :: "string option \<Rightarrow> db \<Rightarrow> bool" where
  "pattern_too_long search rows =
     (case search of
        None \<Rightarrow> False
      | Some s \<Rightarrow> s \<noteq> [] \<and> rows \<noteq> [] \<and> 50000 < length (''%'' @ s @ ''%''))"

text \<open>\<^verbatim>\<open>EmployeeListResponse\<close>; its field \<^verbatim>\<open>total\<close> is \<open>total_n\<close> here.\<close>

record EmployeeListResponse =
  total_n :: nat
  employees :: "Employee list"

text \<open>
  The two \<^verbatim>\<open>if\<close>s that narrow the query. Both test the truthiness of the parameter, which
  the empty string fails like \<^verbatim>\<open>None\<close>.
\<close>

definition filter_search :: "string option \<Rightarrow> Employee list \<Rightarrow> Employee list" where
  "filter_search search query =
     (case search of
        None \<Rightarrow> query
      | Some s \<Rightarrow> if s \<noteq> [] then filter (\<lambda>e. contains (name e) s \<or> contains (role e) s) query
                  else query)"

definition filter_department :: "string option \<Rightarrow> Employee list \<Rightarrow> Employee list" where
  "filter_department dept query =
     (case dept of
        None \<Rightarrow> query
      | Some d \<Rightarrow> if d \<noteq> [] then filter (\<lambda>e. department e = Some d) query else query)"

text \<open>
  \<^verbatim>\<open>skip: int = Query(0, ge=0)\<close> and \<^verbatim>\<open>limit: int = Query(100, ge=1, le=1000)\<close>: a request
  outside these bounds is rejected before the handler runs. \<^verbatim>\<open>query.count()\<close> is the first
  statement to evaluate the pattern; \<^verbatim>\<open>skip\<close> has no upper bound and is bound to \<^verbatim>\<open>OFFSET\<close> in
  the second statement.
\<close>

definition get_employees ::
  "int \<Rightarrow> int \<Rightarrow> string option \<Rightarrow> string option \<Rightarrow> db \<Rightarrow> (error + EmployeeListResponse) \<times> db" where
  "get_employees skip limit search dept rows =
     (if skip < 0 \<or> limit < 1 \<or> 1000 < limit then (Inl RequestValidationError, rows)
      else if pattern_too_long search rows then (Inl OperationalError, rows)
      else if \<not> sqlite_int skip then (Inl OverflowError, rows)
      else (let query = filter_department dept (filter_search search rows)
            in (Inr \<lparr>total_n = length query,
                     employees = take (nat limit) (drop (nat skip) query)\<rparr>, rows)))"

section \<open>get\_employee\_stats\<close>

text \<open>\<^verbatim>\<open>func.avg\<close>: the mean of the values that are not \<^verbatim>\<open>NULL\<close>, \<^verbatim>\<open>NULL\<close> when there is none.\<close>

definition sql_avg :: "real option list \<Rightarrow> real option" where
  "sql_avg vs =
     (let xs = List.map_filter (\<lambda>v. v) vs
      in if xs = [] then None else Some (sum_list xs / real (length xs)))"

text \<open>
  Python's \<^verbatim>\<open>round(x, n)\<close>, on the reals: to the nearest multiple of \<open>10\<^sup>-\<^sup>n\<close>, ties to even.
  The code rounds the 64-bit float nearest to the mean, which seldom is a decimal tie
  itself, so the two can differ by one unit in the last place where the exact mean is a
  tie. No theorem below is about a rounded value other than 0.
\<close>

definition round_half_even :: "real \<Rightarrow> int" where
  "round_half_even x =
     (let f = \<lfloor>x\<rfloor>; d = x - of_int f
      in if d < 1 / 2 then f else if 1 / 2 < d then f + 1 else if even f then f else f + 1)"

definition py_round :: "real \<Rightarrow> nat \<Rightarrow> real" where
  "py_round x n = of_int (round_half_even (x * 10 ^ n)) / 10 ^ n"

text \<open>
  \<^verbatim>\<open>db.query(Employee.department, func.count(Employee.id)).group_by(Employee.department)\<close>:
  one row for every distinct value of the column, \<^verbatim>\<open>NULL\<close> and the empty string being two
  values, in the order of SQLite's sorter (\<^verbatim>\<open>NULL\<close> first, then by bytes).
\<close>

definition group_by_department :: "db \<Rightarrow> (string option \<times> nat) list" where
  "group_by_department rows =
     map (\<lambda>k. (k, length (filter (\<lambda>e. department e = k) rows)))
       (sort (remdups (map department rows)))"

record Stats =
  total_employees :: nat
  average_salary :: real
  average_performance :: real
  growth_rate :: real
  recent_hires :: nat
  departments :: "(string \<times> nat) list"

text \<open>\<^verbatim>\<open>dept or "Unassigned"\<close>.\<close>

definition dept_label :: "string option \<Rightarrow> string" where
  "dept_label dept =
     (case dept of None \<Rightarrow> ''Unassigned'' | Some d \<Rightarrow> if d \<noteq> [] then d else ''Unassigned'')"

text \<open>
  \<open>now\<close> is \<^verbatim>\<open>datetime.now()\<close> in whole seconds; thirty days are 2592000 seconds. (The code
  compares the stored text of \<^verbatim>\<open>created_at\<close> with a timestamp that has microseconds, so a
  row created in the very second of the boundary can be counted here and not there.)
\<close>

definition get_employee_stats :: "int \<Rightarrow> db \<Rightarrow> Stats \<times> db" where
  "get_employee_stats now rows =
     (let total_employees = length rows;
          avg_salary = sql_avg (map (\<lambda>e. Some (salary e)) rows);
          avg_performance = sql_avg (map performance_rating rows);
          departments = group_by_department rows;
          thirty_days_ago = now - 2592000;
          recent_employees =
            length (filter (\<lambda>e. case created_at e of None \<Rightarrow> False
                                 | Some t \<Rightarrow> thirty_days_ago \<le> t) rows);
          growth_rate =
            (if 0 < total_employees
             then py_round (real recent_employees / real total_employees * 100) 1 else 0)
      in (\<lparr>total_employees = total_employees,
           average_salary =
             (case avg_salary of None \<Rightarrow> 0
              | Some a \<Rightarrow> if a \<noteq> 0 then py_round a 2 else 0),
           average_performance =
             (case avg_performance of None \<Rightarrow> 0
              | Some a \<Rightarrow> if a \<noteq> 0 then py_round a 1 else 0),
           growth_rate = growth_rate,
           recent_hires = recent_employees,
           departments = map (\<lambda>(dept, count). (dept_label dept, count)) departments\<rparr>,
          rows))"

section \<open>export\_employees\_csv\<close>

text \<open>
  What the handler passes to \<^verbatim>\<open>writer.writerow\<close>: integers, floats, strings, a
  \<^verbatim>\<open>datetime\<close>, or \<^verbatim>\<open>None\<close>.
\<close>

datatype cell = CInt int | CFloat real | CStr string | CTime int | CNone

text \<open>\<^verbatim>\<open>x or ''\<close> on an \<^verbatim>\<open>Optional[str]\<close>.\<close>

definition or_empty :: "string option \<Rightarrow> string" where
  "or_empty x = (case x of None \<Rightarrow> [] | Some s \<Rightarrow> s)"

definition header :: "string list" where
  "header = [''ID'', ''Name'', ''Email'', ''Role'', ''Department'', ''Salary'',
             ''Performance Rating'', ''Skills'', ''Created At'']"

definition employee_cells :: "Employee \<Rightarrow> cell list" where
  "employee_cells emp =
     [CInt (id_emp emp), CStr (name emp), CStr (or_empty (email emp)), CStr (role emp),
      CStr (or_empty (department emp)), CFloat (salary emp),
      (case performance_rating emp of None \<Rightarrow> CNone | Some v \<Rightarrow> CFloat v),
      CStr (or_empty (skills emp)),
      (case created_at emp of None \<Rightarrow> CNone | Some t \<Rightarrow> CTime t)]"

text \<open>\<^verbatim>\<open>str\<close> of an \<^verbatim>\<open>int\<close>.\<close>

fun digits :: "nat \<Rightarrow> string" where
  "digits n =
     (if n < 10 then [char_of (48 + n)] else digits (n div 10) @ [char_of (48 + n mod 10)])"

declare digits.simps [simp del]

definition str_int :: "int \<Rightarrow> string" where
  "str_int i = (if i < 0 then CHR ''-'' # digits (nat (- i)) else digits (nat i))"

text \<open>
  The text the writer makes of a cell. \<^verbatim>\<open>None\<close> is written as the empty string; the
  renderings of a float and of a \<^verbatim>\<open>datetime\<close> are parameters.
\<close>

fun cell_text :: "(real \<Rightarrow> string) \<Rightarrow> (int \<Rightarrow> string) \<Rightarrow> cell \<Rightarrow> string" where
  "cell_text str_float str_datetime (CInt i) = str_int i"
| "cell_text str_float str_datetime (CFloat x) = str_float x"
| "cell_text str_float str_datetime (CStr s) = s"
| "cell_text str_float str_datetime (CTime t) = str_datetime t"
| "cell_text str_float str_datetime CNone = []"

text \<open>
  \<^verbatim>\<open>csv.writer(output)\<close> with the default dialect \<^verbatim>\<open>excel\<close>: fields are joined by commas
  and the row ends in \<^verbatim>\<open>\r\n\<close>; a field that holds a comma, a double quote, \<^verbatim>\<open>\r\<close> or
  \<^verbatim>\<open>\n\<close> is put in double quotes with its double quotes doubled; a row of one empty field
  is written as two double quotes.
\<close>

definition needs_quotes :: "string \<Rightarrow> bool" where
  "needs_quotes s =
     (\<exists>c \<in> set s. c = CHR '','' \<or> c = CHR 0x22 \<or> c = CHR 0x0D \<or> c = CHR 0x0A)"

definition csv_field :: "string \<Rightarrow> string" where
  "csv_field s =
     (if needs_quotes s
      then [CHR 0x22] @ concat (map (\<lambda>c. if c = CHR 0x22 then [c, c] else [c]) s) @ [CHR 0x22]
      else s)"

fun join_fields :: "string list \<Rightarrow> string" where
  "join_fields [] = []"
| "join_fields [f] = f"
| "join_fields (f # g # fs) = f @ '','' @ join_fields (g # fs)"

definition writerow :: "string list \<Rightarrow> string" where
  "writerow row =
     (if row = [[]] then [CHR 0x22, CHR 0x22] else join_fields (map csv_field row))
     @ [CHR 0x0D, CHR 0x0A]"

text \<open>The rows handed to the writer, and the body of the response.\<close>

definition export_rows :: "(real \<Rightarrow> string) \<Rightarrow> (int \<Rightarrow> string) \<Rightarrow> db \<Rightarrow> string list list" where
  "export_rows str_float str_datetime rows =
     header # map (\<lambda>emp. map (cell_text str_float str_datetime) (employee_cells emp)) rows"

definition export_employees_csv ::
  "(real \<Rightarrow> string) \<Rightarrow> (int \<Rightarrow> string) \<Rightarrow> db \<Rightarrow> string \<times> db" where
  "export_employees_csv str_float str_datetime rows =
     (concat (map writerow (export_rows str_float str_datetime rows)), rows)"

section \<open>Invariants of the table\<close>

text \<open>No two rows share an email that is not \<^verbatim>\<open>NULL\<close>; no two rows share an id.\<close>

definition unique_emails :: "db \<Rightarrow> bool" where
  "unique_emails rows = distinct (filter (\<lambda>e. e \<noteq> None) (map email rows))"

definition primary_key :: "db \<Rightarrow> bool" where
  "primary_key rows = distinct (map id_emp rows)"

section \<open>The list operation: the specification's filtered set and the code's\<close>





section \<open>The export, in the words of the specification\<close>

text \<open>
  One row per record: its id, name, email, role, department, salary, performance rating,
  skills and time of creation, in this order, an absent value being the empty string.
\<close>

definition record_fields :: "(real \<Rightarrow> string) \<Rightarrow> (int \<Rightarrow> string) \<Rightarrow> Employee \<Rightarrow> string list" where
  "record_fields str_float str_datetime e =
     [str_int (id_emp e),
      name e,
      (case email e of None \<Rightarrow> [] | Some a \<Rightarrow> a),
      role e,
      (case department e of None \<Rightarrow> [] | Some d \<Rightarrow> d),
      str_float (salary e),
      (case performance_rating e of None \<Rightarrow> [] | Some v \<Rightarrow> str_float v),
      (case skills e of None \<Rightarrow> [] | Some k \<Rightarrow> k),
      (case created_at e of None \<Rightarrow> [] | Some t \<Rightarrow> str_datetime t)]"

text \<open>
  A row as comma-separated text: the fields in order with a comma between neighbours and
  \<^verbatim>\<open>\r\n\<close> at the end; a field that holds a comma, a double quote, \<^verbatim>\<open>\r\<close> or \<^verbatim>\<open>\n\<close> stands in
  double quotes, each double quote of its own written twice.
\<close>

fun double_quotes :: "string \<Rightarrow> string" where
  "double_quotes [] = []"
| "double_quotes (c # cs) =
     (if c = CHR 0x22 then c # c # double_quotes cs else c # double_quotes cs)"

definition csv_value :: "string \<Rightarrow> string" where
  "csv_value f =
     (if set f \<inter> {CHR '','', CHR 0x22, CHR 0x0D, CHR 0x0A} = {} then f
      else CHR 0x22 # double_quotes f @ [CHR 0x22])"

fun csv_record :: "string list \<Rightarrow> string" where
  "csv_record [] = [CHR 0x0D, CHR 0x0A]"
| "csv_record [f] = csv_value f @ [CHR 0x0D, CHR 0x0A]"
| "csv_record (f # g # fs) = csv_value f @ CHR '','' # csv_record (g # fs)"

text \<open>The number that a string of decimal digits writes.\<close>

definition decimal :: "string \<Rightarrow> nat" where
  "decimal ds = foldl (\<lambda>a c. 10 * a + (of_char c - 48)) 0 ds"

section \<open>Sample requests and rows\<close>

text \<open>The two entries of the bulk import of the specification's testable properties.\<close>

definition entry_A :: EmployeeCreate where
  "entry_A = \<lparr>name = ''A'', role = ''x'', salary = 1, email = Some ''a@x.com'',
              department = None, performance_rating = Some 0, skills = None\<rparr>"

definition entry_B :: EmployeeCreate where
  "entry_B = \<lparr>name = ''B'', role = ''y'', salary = 2, email = Some ''a@x.com'',
              department = None, performance_rating = Some 0, skills = None\<rparr>"

text \<open>Three stored rows: one without a department, one with the empty department.\<close>

definition ada :: Employee where
  "ada = \<lparr>name = ''Ada'', role = ''Engineer'', salary = 90000, email = Some ''ada@x.com'',
          department = Some ''R&D'', performance_rating = Some 4, skills = Some ''ML, C'',
          id_emp = 1, created_at = Some 100, updated_at = None\<rparr>"

definition bob :: Employee where
  "bob = \<lparr>name = ''Bob'', role = ''Clerk'', salary = 40000, email = Some ''bob@x.com'',
          department = None, performance_rating = Some 3, skills = None,
          id_emp = 2, created_at = Some 200, updated_at = None\<rparr>"

definition cyd :: Employee where
  "cyd = \<lparr>name = ''Cyd'', role = ''Clerk'', salary = 50000, email = None,
          department = Some [], performance_rating = None, skills = None,
          id_emp = 3, created_at = Some 300, updated_at = None\<rparr>"

text \<open>Update payloads: \<^verbatim>\<open>{}\<close>, \<^verbatim>\<open>{"salary": s}\<close> and \<^verbatim>\<open>{"email": e}\<close>.\<close>

definition no_fields :: EmployeeUpdate where
  "no_fields = \<lparr>upd_name = Unset, upd_role = Unset, upd_salary = Unset, upd_email = Unset,
                upd_department = Unset, upd_performance_rating = Unset, upd_skills = Unset\<rparr>"

definition only_salary :: "real \<Rightarrow> EmployeeUpdate" where
  "only_salary s = no_fields\<lparr>upd_salary := Val s\<rparr>"

definition only_email :: "string \<Rightarrow> EmployeeUpdate" where
  "only_email e = no_fields\<lparr>upd_email := Val e\<rparr>"

text \<open>
  Stand-ins for the two renderings that the export takes as parameters, for the sample rows:
  a float without fraction as Python writes it, and a time as its number of seconds.
\<close>

definition demo_str_float :: "real \<Rightarrow> string" where
  "demo_str_float x = str_int \<lfloor>x\<rfloor> @ ''.0''"

definition demo_str_datetime :: "int \<Rightarrow> string" where
  "demo_str_datetime t = ''t='' @ str_int t"

section \<open>Facts about the query interface\<close>

lemma first_None_iff: "first xs = None \<longleftrightarrow> xs = []"
  by (cases xs) simp_all

lemma by_email_empty_iff: "by_email (Some a) rows = [] \<longleftrightarrow> Some a \<notin> email ` set rows"
  by (force simp: by_email_def filter_empty_conv)

lemma email_taken_iff:
  "first (by_email (Some a) rows) = None \<longleftrightarrow> Some a \<notin> email ` set rows"
  by (simp add: first_None_iff by_email_empty_iff)

lemma next_id_fresh: "next_id rows \<notin> id_emp ` set rows"
proof
  assume a: "next_id rows \<in> id_emp ` set rows"
  then have ne: "rows \<noteq> []" by auto
  have "next_id rows \<le> Max (id_emp ` set rows)"
    using a by (intro Max_ge) simp_all
  with ne show False by (simp add: next_id_def)
qed

lemma create_dup_iff:
  assumes "email p \<noteq> Some []"
  shows "fst (create_employee now p rows) = Inl DuplicateEmail
         \<longleftrightarrow> (\<exists>e. email p = Some e \<and> Some e \<in> email ` set rows)"
proof (cases "email p")
  case None
  then show ?thesis
    by (simp add: create_employee_def flush_insert_def unique_violation_def)
next
  case (Some a)
  with assms have "a \<noteq> []" by simp
  with Some show ?thesis
    by (simp add: create_employee_def flush_insert_def unique_violation_def email_taken_iff)
qed

lemma create_ok:
  assumes "email p \<noteq> Some []"
    and "\<not> (\<exists>e. email p = Some e \<and> Some e \<in> email ` set rows)"
  shows "create_employee now p rows = (Inr (new_row now p rows), rows @ [new_row now p rows])"
proof (cases "email p")
  case None
  then show ?thesis
    by (simp add: create_employee_def flush_insert_def unique_violation_def)
next
  case (Some a)
  with assms have "a \<noteq> []" "Some a \<notin> email ` set rows" by simp_all
  with Some show ?thesis
    by (simp add: create_employee_def flush_insert_def unique_violation_def email_taken_iff)
qed

lemma create_dup_state:
  "fst (create_employee now p rows) = Inl DuplicateEmail \<Longrightarrow> snd (create_employee now p rows) = rows"
  by (auto simp: create_employee_def split: if_splits sum.splits)

lemma create_keeps_emails:
  "email ` set rows \<subseteq> email ` set (snd (create_employee now p rows))"
  by (auto simp: create_employee_def flush_insert_def split: sum.splits)

lemma create_stores_email:
  assumes "email p = Some e" "e \<noteq> []"
  shows "Some e \<in> email ` set (snd (create_employee now p rows))"
proof (cases "Some e \<in> email ` set rows")
  case True
  then show ?thesis using create_keeps_emails by blast
next
  case False
  with assms have "create_employee now p rows = (Inr (new_row now p rows), rows @ [new_row now p rows])"
    by (intro create_ok) auto
  with assms show ?thesis by (simp add: new_row_def)
qed

section \<open>Creation and duplicate emails\<close>

text \<open>
  Claim C4. For a creation payload whose email, when present, is not the empty string (an
  \<^verbatim>\<open>EmailStr\<close> never is), \<^verbatim>\<open>create_employee\<close> fails with \<^verbatim>\<open>DuplicateEmail\<close> (HTTP 400) if and
  only if the email is present and already stored; in that case the table is unchanged.
  Otherwise it returns a new row, appended to the table, whose id no stored row has, whose
  \<^verbatim>\<open>created_at\<close> is the time of the insert and whose fields are those of the payload. A
  second creation with the same present email fails with \<^verbatim>\<open>DuplicateEmail\<close>.
\<close>

theorem create_employee_duplicate_email:
  assumes "email p \<noteq> Some []" and "email q \<noteq> Some []"
  shows "(fst (create_employee now p rows) = Inl DuplicateEmail
            \<longleftrightarrow> (\<exists>e. email p = Some e \<and> Some e \<in> email ` set rows))
       \<and> (fst (create_employee now p rows) = Inl DuplicateEmail
            \<longrightarrow> snd (create_employee now p rows) = rows)
       \<and> (fst (create_employee now p rows) \<noteq> Inl DuplicateEmail
            \<longrightarrow> (\<exists>r. create_employee now p rows = (Inr r, rows @ [r])
                     \<and> id_emp r \<notin> id_emp ` set rows \<and> created_at r = Some now
                     \<and> name r = name p \<and> role r = role p \<and> salary r = salary p
                     \<and> email r = email p \<and> department r = department p
                     \<and> skills r = skills p))
       \<and> (email p \<noteq> None \<and> email q = email p
            \<longrightarrow> fst (create_employee now' q (snd (create_employee now p rows)))
                  = Inl DuplicateEmail)"
proof (intro conjI impI)
  show "fst (create_employee now p rows) = Inl DuplicateEmail
          \<longleftrightarrow> (\<exists>e. email p = Some e \<and> Some e \<in> email ` set rows)"
    using assms(1) by (rule create_dup_iff)
next
  assume "fst (create_employee now p rows) = Inl DuplicateEmail"
  then show "snd (create_employee now p rows) = rows" by (rule create_dup_state)
next
  assume "fst (create_employee now p rows) \<noteq> Inl DuplicateEmail"
  then have "\<not> (\<exists>e. email p = Some e \<and> Some e \<in> email ` set rows)"
    using create_dup_iff [OF assms(1)] by blast
  then have "create_employee now p rows = (Inr (new_row now p rows), rows @ [new_row now p rows])"
    using assms(1) by (intro create_ok)
  moreover have "id_emp (new_row now p rows) \<notin> id_emp ` set rows"
    using next_id_fresh [of rows] by (simp add: new_row_def)
  ultimately show "\<exists>r. create_employee now p rows = (Inr r, rows @ [r])
                     \<and> id_emp r \<notin> id_emp ` set rows \<and> created_at r = Some now
                     \<and> name r = name p \<and> role r = role p \<and> salary r = salary p
                     \<and> email r = email p \<and> department r = department p
                     \<and> skills r = skills p"
    by (intro exI [of _ "new_row now p rows"]) (simp add: new_row_def)
next
  assume a: "email p \<noteq> None \<and> email q = email p"
  then obtain e where e: "email p = Some e" "email q = Some e" by auto
  with assms(1) have ne: "e \<noteq> []" by auto
  have "Some e \<in> email ` set (snd (create_employee now p rows))"
    using e(1) ne by (rule create_stores_email)
  with e(2) show "fst (create_employee now' q (snd (create_employee now p rows))) = Inl DuplicateEmail"
    using create_dup_iff [OF assms(2)] by blast
qed

theorem create_employee_duplicate_email_witness:
  "fst (create_employee 400 entry_A [ada, bob, cyd]) = Inr (new_row 400 entry_A [ada, bob, cyd])
   \<and> fst (create_employee 401 entry_B (snd (create_employee 400 entry_A [ada, bob, cyd])))
       = Inl DuplicateEmail
   \<and> snd (create_employee 401 entry_B (snd (create_employee 400 entry_A [ada, bob, cyd])))
       = [ada, bob, cyd, new_row 400 entry_A [ada, bob, cyd]]"
proof -
  have p: "email entry_A \<noteq> Some []" and q: "email entry_B \<noteq> Some []"
    by (simp_all add: entry_A_def entry_B_def)
  have fresh: "\<not> (\<exists>e. email entry_A = Some e \<and> Some e \<in> email ` set [ada, bob, cyd])"
    by (simp add: entry_A_def ada_def bob_def cyd_def)
  have same: "email entry_A \<noteq> None \<and> email entry_B = email entry_A"
    by (simp add: entry_A_def entry_B_def)
  note t = create_employee_duplicate_email [OF p q, of 400 "[ada, bob, cyd]" 401]
  from t fresh have nd: "fst (create_employee 400 entry_A [ada, bob, cyd]) \<noteq> Inl DuplicateEmail"
    by blast
  with t obtain r where r: "create_employee 400 entry_A [ada, bob, cyd] = (Inr r, [ada, bob, cyd] @ [r])"
    by blast
  from t same have d: "fst (create_employee 401 entry_B (snd (create_employee 400 entry_A [ada, bob, cyd])))
       = Inl DuplicateEmail" by blast
  note t2 = create_employee_duplicate_email [OF q q, of 401 "snd (create_employee 400 entry_A [ada, bob, cyd])" 0]
  from t2 d have "snd (create_employee 401 entry_B (snd (create_employee 400 entry_A [ada, bob, cyd])))
     = snd (create_employee 400 entry_A [ada, bob, cyd])" by blast
  moreover have "create_employee 400 entry_A [ada, bob, cyd]
        = (Inr (new_row 400 entry_A [ada, bob, cyd]), [ada, bob, cyd] @ [new_row 400 entry_A [ada, bob, cyd]])"
    using p fresh by (rule create_ok)
  ultimately show ?thesis using d by simp
qed

section \<open>Updates and duplicate emails\<close>

lemma first_by_id_SomeD:
  assumes "first (by_id i rows) = Some r"
  shows "r \<in> set rows" and "id_emp r = i"
proof -
  from assms obtain xs where "by_id i rows = r # xs"
    by (cases "by_id i rows") simp_all
  then have "r \<in> set (by_id i rows)" by simp
  then show "r \<in> set rows" and "id_emp r = i" by (simp_all add: by_id_def)
qed

lemma flush_update_not_HTTPException:
  "flush_update now r u rows \<noteq> Inl (HTTPException c d)"
  by (simp add: flush_update_def Let_def split: option.splits)

lemma update_dup_iff:
  assumes found: "first (by_id i rows) = Some r" and valid: "upd_email u \<noteq> Val []"
  shows "fst (update_employee now i u rows) = Inl DuplicateEmail
         \<longleftrightarrow> (\<exists>e. upd_email u = Val e \<and> email r \<noteq> Some e
                  \<and> (\<exists>r' \<in> set rows. r' \<noteq> r \<and> email r' = Some e))"
proof (cases "upd_email u")
  case Unset
  then show ?thesis using found flush_update_not_HTTPException [of now r u rows]
    by (auto simp: update_employee_def split: sum.splits)
next
  case Null
  then show ?thesis using found flush_update_not_HTTPException [of now r u rows]
    by (auto simp: update_employee_def split: sum.splits)
next
  case (Val e)
  with valid have ne: "e \<noteq> []" by simp
  have guard: "(first (by_email (Some e) rows) \<noteq> None) \<longleftrightarrow> Some e \<in> email ` set rows"
    by (simp add: email_taken_iff)
  show ?thesis
  proof (cases "email r \<noteq> Some e \<and> Some e \<in> email ` set rows")
    case True
    then have "fst (update_employee now i u rows) = Inl DuplicateEmail"
      using found Val ne guard by (auto simp: update_employee_def)
    moreover from True have "\<exists>r' \<in> set rows. r' \<noteq> r \<and> email r' = Some e" by auto
    ultimately show ?thesis using Val True by simp
  next
    case False
    then have "fst (update_employee now i u rows) \<noteq> Inl DuplicateEmail"
      using found Val ne guard flush_update_not_HTTPException [of now r u rows]
      by (auto simp: update_employee_def split: sum.splits)
    moreover from False have "\<not> (email r \<noteq> Some e \<and> (\<exists>r' \<in> set rows. r' \<noteq> r \<and> email r' = Some e))"
      by force
    ultimately show ?thesis using Val by simp
  qed
qed

text \<open>
  Claim C5. For a stored id and an update payload whose email, when given, is not the empty
  string, \<^verbatim>\<open>update_employee\<close> fails with \<^verbatim>\<open>DuplicateEmail\<close> if and only if the payload's
  email is present, differs from the stored email of the record, and is the email of
  another stored record. An update that submits the record's own email, or an email that no
  other record has, does not fail with \<^verbatim>\<open>DuplicateEmail\<close>.
\<close>

theorem update_employee_duplicate_email:
  assumes "first (by_id i rows) = Some r" and "upd_email u \<noteq> Val []"
  shows "(fst (update_employee now i u rows) = Inl DuplicateEmail
           \<longleftrightarrow> (\<exists>e. upd_email u = Val e \<and> email r \<noteq> Some e
                    \<and> (\<exists>r' \<in> set rows. r' \<noteq> r \<and> email r' = Some e)))
       \<and> (attr (upd_email u) = email r
           \<longrightarrow> fst (update_employee now i u rows) \<noteq> Inl DuplicateEmail)
       \<and> ((\<forall>r' \<in> set rows. r' \<noteq> r \<longrightarrow> email r' \<noteq> attr (upd_email u))
           \<longrightarrow> fst (update_employee now i u rows) \<noteq> Inl DuplicateEmail)"
proof (intro conjI impI)
  show "fst (update_employee now i u rows) = Inl DuplicateEmail
           \<longleftrightarrow> (\<exists>e. upd_email u = Val e \<and> email r \<noteq> Some e
                    \<and> (\<exists>r' \<in> set rows. r' \<noteq> r \<and> email r' = Some e))"
    using assms by (rule update_dup_iff)
next
  assume "attr (upd_email u) = email r"
  then have "\<not> (\<exists>e. upd_email u = Val e \<and> email r \<noteq> Some e
                    \<and> (\<exists>r' \<in> set rows. r' \<noteq> r \<and> email r' = Some e))"
    by auto
  then show "fst (update_employee now i u rows) \<noteq> Inl DuplicateEmail"
    using update_dup_iff [OF assms] by blast
next
  assume "\<forall>r' \<in> set rows. r' \<noteq> r \<longrightarrow> email r' \<noteq> attr (upd_email u)"
  then have "\<not> (\<exists>e. upd_email u = Val e \<and> email r \<noteq> Some e
                    \<and> (\<exists>r' \<in> set rows. r' \<noteq> r \<and> email r' = Some e))"
    by auto
  then show "fst (update_employee now i u rows) \<noteq> Inl DuplicateEmail"
    using update_dup_iff [OF assms] by blast
qed

theorem update_employee_duplicate_email_witness:
  "fst (update_employee 500 1 (only_email ''bob@x.com'') [ada, bob, cyd]) = Inl DuplicateEmail
   \<and> fst (update_employee 500 1 (only_email ''ada@x.com'') [ada, bob, cyd]) \<noteq> Inl DuplicateEmail
   \<and> fst (update_employee 500 1 (only_email ''new@x.com'') [ada, bob, cyd]) \<noteq> Inl DuplicateEmail"
proof -
  have found: "first (by_id 1 [ada, bob, cyd]) = Some ada"
    by (simp add: by_id_def ada_def bob_def cyd_def)
  have v: "upd_email (only_email e) \<noteq> Val []" if "e \<noteq> []" for e
    using that by (simp add: only_email_def)
  have "\<exists>e. upd_email (only_email ''bob@x.com'') = Val e \<and> email ada \<noteq> Some e
             \<and> (\<exists>r' \<in> set [ada, bob, cyd]. r' \<noteq> ada \<and> email r' = Some e)"
    by (simp add: only_email_def ada_def bob_def)
  then have 1: "fst (update_employee 500 1 (only_email ''bob@x.com'') [ada, bob, cyd]) = Inl DuplicateEmail"
    using update_employee_duplicate_email [OF found v, of "''bob@x.com''" 500] by blast
  have "attr (upd_email (only_email ''ada@x.com'')) = email ada"
    by (simp add: only_email_def ada_def)
  then have 2: "fst (update_employee 500 1 (only_email ''ada@x.com'') [ada, bob, cyd]) \<noteq> Inl DuplicateEmail"
    using update_employee_duplicate_email [OF found v, of "''ada@x.com''" 500] by blast
  have "\<forall>r' \<in> set [ada, bob, cyd]. r' \<noteq> ada \<longrightarrow> email r' \<noteq> attr (upd_email (only_email ''new@x.com''))"
    by (simp add: only_email_def ada_def bob_def cyd_def)
  then have 3: "fst (update_employee 500 1 (only_email ''new@x.com'') [ada, bob, cyd]) \<noteq> Inl DuplicateEmail"
    using update_employee_duplicate_email [OF found v, of "''new@x.com''" 500] by blast
  from 1 2 3 show ?thesis by simp
qed

section \<open>Partial updates\<close>

lemma setattr_cases:
  "setattr f old = (case f of Unset \<Rightarrow> old | Null \<Rightarrow> None | Val v \<Rightarrow> Some v)"
  by (cases f) simp_all

lemma flush_update_Inr:
  assumes "flush_update now r u rows = Inr (r', rows')"
  shows "Some (name r') = setattr (upd_name u) (Some (name r))"
    and "Some (role r') = setattr (upd_role u) (Some (role r))"
    and "Some (salary r') = setattr (upd_salary u) (Some (salary r))"
    and "email r' = setattr (upd_email u) (email r)"
    and "department r' = setattr (upd_department u) (department r)"
    and "performance_rating r' = setattr (upd_performance_rating u) (performance_rating r)"
    and "skills r' = setattr (upd_skills u) (skills r)"
    and "id_emp r' = id_emp r"
    and "created_at r' = created_at r"
    and "rows' = rows \<and> r' = r
         \<or> rows' = map (\<lambda>x. if id_emp x = id_emp r then r' else x) rows
           \<and> updated_at r' = Some now"
  using assms
  by (auto simp: flush_update_def Let_def split: if_splits option.splits)

lemma update_employee_Inr:
  assumes "first (by_id i rows) = Some r"
    and "update_employee now i u rows = (Inr r', rows')"
  shows "flush_update now r u rows = Inr (r', rows')"
  using assms by (auto simp: update_employee_def split: if_splits sum.splits)

lemma first_by_id_map:
  assumes "first (by_id i rows) = Some r" and "id_emp r' = i"
  shows "first (by_id i (map (\<lambda>x. if id_emp x = i then r' else x) rows)) = Some r'"
  using assms unfolding by_id_def
  by (induction rows) (auto split: if_splits)

lemma update_only_salary:
  assumes "first (by_id i rows) = Some r"
  shows "update_employee now i (only_salary s) rows =
           (if s = salary r then (Inr r, rows)
            else (Inr (r\<lparr>salary := s, updated_at := Some now\<rparr>),
                  map (\<lambda>x. if id_emp x = id_emp r then r\<lparr>salary := s, updated_at := Some now\<rparr> else x)
                    rows))"
  using assms
  by (simp add: update_employee_def flush_update_def only_salary_def no_fields_def Let_def)


text \<open>
  A payload that sets \<^verbatim>\<open>salary\<close> to \<^verbatim>\<open>null\<close> passes the schema (\<^verbatim>\<open>Optional[float]\<close>) and fails
  at the commit on the column's \<^verbatim>\<open>nullable=False\<close>; nothing is written.
\<close>

lemma update_salary_null:
  assumes "first (by_id i rows) = Some r"
  shows "update_employee now i (no_fields\<lparr>upd_salary := Null\<rparr>) rows = (Inl IntegrityError, rows)"
  using assms
  by (simp add: update_employee_def flush_update_def no_fields_def Let_def)

text \<open>
  Claim C1, as the code has it. For a stored record and a payload that holds only
  \<^verbatim>\<open>salary\<close>, set to a number \<open>s\<close>, the update succeeds and returns the stored record with
  \<^verbatim>\<open>salary\<close> replaced and nothing else changed but \<^verbatim>\<open>updated_at\<close>; in the table that record
  takes the place of the stored one and no other row changes. When \<open>s\<close> differs from the
  stored salary, \<^verbatim>\<open>updated_at\<close> becomes the time of the update, which is not before
  \<^verbatim>\<open>created_at\<close> if the clock has not gone back since the creation; when \<open>s\<close> is the stored
  salary, no statement is issued and \<^verbatim>\<open>updated_at\<close> keeps its stored value. For every
  payload with which the update succeeds, the returned record is the one stored under the
  id afterwards, \<^verbatim>\<open>id\<close> and \<^verbatim>\<open>created_at\<close> are unchanged, a field absent from the payload
  keeps its stored value, one of \<^verbatim>\<open>email\<close>, \<^verbatim>\<open>department\<close>, \<^verbatim>\<open>performance_rating\<close> and
  \<^verbatim>\<open>skills\<close> given as \<^verbatim>\<open>null\<close> is stored as \<^verbatim>\<open>NULL\<close>, and a field given with a value (the
  empty string and zero included) is stored with that value.
\<close>

theorem update_employee_partial:
  assumes "first (by_id i rows) = Some r"
  shows "fst (update_employee now i (only_salary s) rows)
           = Inr (if s = salary r then r else r\<lparr>salary := s, updated_at := Some now\<rparr>)
       \<and> snd (update_employee now i (only_salary s) rows)
           = (if s = salary r then rows
              else map (\<lambda>x. if id_emp x = id_emp r
                             then r\<lparr>salary := s, updated_at := Some now\<rparr> else x) rows)
       \<and> (s \<noteq> salary r \<and> created_at r = Some c \<and> c \<le> now
           \<longrightarrow> (\<exists>r' t. fst (update_employee now i (only_salary s) rows) = Inr r'
                        \<and> created_at r' = Some c \<and> updated_at r' = Some t \<and> c \<le> t))
       \<and> (fst (update_employee now i u rows) = Inr r'
           \<longrightarrow> first (by_id i (snd (update_employee now i u rows))) = Some r'
             \<and> id_emp r' = id_emp r \<and> created_at r' = created_at r
             \<and> (upd_name u = Unset \<longrightarrow> name r' = name r)
             \<and> (upd_role u = Unset \<longrightarrow> role r' = role r)
             \<and> (upd_salary u = Unset \<longrightarrow> salary r' = salary r)
             \<and> (upd_email u = Unset \<longrightarrow> email r' = email r)
             \<and> (upd_department u = Unset \<longrightarrow> department r' = department r)
             \<and> (upd_performance_rating u = Unset
                  \<longrightarrow> performance_rating r' = performance_rating r)
             \<and> (upd_skills u = Unset \<longrightarrow> skills r' = skills r)
             \<and> (upd_email u = Null \<longrightarrow> email r' = None)
             \<and> (upd_department u = Null \<longrightarrow> department r' = None)
             \<and> (upd_performance_rating u = Null \<longrightarrow> performance_rating r' = None)
             \<and> (upd_skills u = Null \<longrightarrow> skills r' = None)
             \<and> (\<forall>v. upd_name u = Val v \<longrightarrow> name r' = v)
             \<and> (\<forall>v. upd_role u = Val v \<longrightarrow> role r' = v)
             \<and> (\<forall>v. upd_salary u = Val v \<longrightarrow> salary r' = v)
             \<and> (\<forall>v. upd_email u = Val v \<longrightarrow> email r' = Some v)
             \<and> (\<forall>v. upd_department u = Val v \<longrightarrow> department r' = Some v)
             \<and> (\<forall>v. upd_performance_rating u = Val v \<longrightarrow> performance_rating r' = Some v)
             \<and> (\<forall>v. upd_skills u = Val v \<longrightarrow> skills r' = Some v))"
proof -
  have p1: "fst (update_employee now i (only_salary s) rows)
           = Inr (if s = salary r then r else r\<lparr>salary := s, updated_at := Some now\<rparr>)"
    by (simp add: update_only_salary [OF assms])
  have p2: "\<exists>r' t. fst (update_employee now i (only_salary s) rows) = Inr r'
                        \<and> created_at r' = Some c \<and> updated_at r' = Some t \<and> c \<le> t"
    if "s \<noteq> salary r \<and> created_at r = Some c \<and> c \<le> now"
    using that by (simp add: update_only_salary [OF assms])
  have p3: "first (by_id i (snd (update_employee now i u rows))) = Some r'
             \<and> id_emp r' = id_emp r \<and> created_at r' = created_at r
             \<and> (upd_name u = Unset \<longrightarrow> name r' = name r)
             \<and> (upd_role u = Unset \<longrightarrow> role r' = role r)
             \<and> (upd_salary u = Unset \<longrightarrow> salary r' = salary r)
             \<and> (upd_email u = Unset \<longrightarrow> email r' = email r)
             \<and> (upd_department u = Unset \<longrightarrow> department r' = department r)
             \<and> (upd_performance_rating u = Unset
                  \<longrightarrow> performance_rating r' = performance_rating r)
             \<and> (upd_skills u = Unset \<longrightarrow> skills r' = skills r)
             \<and> (upd_email u = Null \<longrightarrow> email r' = None)
             \<and> (upd_department u = Null \<longrightarrow> department r' = None)
             \<and> (upd_performance_rating u = Null \<longrightarrow> performance_rating r' = None)
             \<and> (upd_skills u = Null \<longrightarrow> skills r' = None)
             \<and> (\<forall>v. upd_name u = Val v \<longrightarrow> name r' = v)
             \<and> (\<forall>v. upd_role u = Val v \<longrightarrow> role r' = v)
             \<and> (\<forall>v. upd_salary u = Val v \<longrightarrow> salary r' = v)
             \<and> (\<forall>v. upd_email u = Val v \<longrightarrow> email r' = Some v)
             \<and> (\<forall>v. upd_department u = Val v \<longrightarrow> department r' = Some v)
             \<and> (\<forall>v. upd_performance_rating u = Val v \<longrightarrow> performance_rating r' = Some v)
             \<and> (\<forall>v. upd_skills u = Val v \<longrightarrow> skills r' = Some v)"
    if ok: "fst (update_employee now i u rows) = Inr r'"
  proof -
    from ok have "update_employee now i u rows = (Inr r', snd (update_employee now i u rows))"
      by (metis prod.collapse)
    with assms have fl: "flush_update now r u rows = Inr (r', snd (update_employee now i u rows))"
      by (rule update_employee_Inr)
    note f = flush_update_Inr [OF fl]
    have idr: "id_emp r = i" using assms by (rule first_by_id_SomeD)
    have stored: "first (by_id i (snd (update_employee now i u rows))) = Some r'"
    proof -
      from f(10) consider "snd (update_employee now i u rows) = rows" "r' = r"
        | "snd (update_employee now i u rows) = map (\<lambda>x. if id_emp x = i then r' else x) rows"
        using idr by auto
      then show ?thesis
      proof cases
        case 1
        with assms show ?thesis by simp
      next
        case 2
        moreover have "id_emp r' = i" using f(8) idr by simp
        ultimately show ?thesis using first_by_id_map [OF assms] by simp
      qed
    qed
    have n: "(upd_name u = Unset \<longrightarrow> name r' = name r) \<and> (\<forall>v. upd_name u = Val v \<longrightarrow> name r' = v)"
      using f(1) by auto
    have ro: "(upd_role u = Unset \<longrightarrow> role r' = role r) \<and> (\<forall>v. upd_role u = Val v \<longrightarrow> role r' = v)"
      using f(2) by auto
    have sa: "(upd_salary u = Unset \<longrightarrow> salary r' = salary r)
              \<and> (\<forall>v. upd_salary u = Val v \<longrightarrow> salary r' = v)"
      using f(3) by auto
    have em: "(upd_email u = Unset \<longrightarrow> email r' = email r) \<and> (upd_email u = Null \<longrightarrow> email r' = None)
              \<and> (\<forall>v. upd_email u = Val v \<longrightarrow> email r' = Some v)"
      using f(4) by auto
    have de: "(upd_department u = Unset \<longrightarrow> department r' = department r)
              \<and> (upd_department u = Null \<longrightarrow> department r' = None)
              \<and> (\<forall>v. upd_department u = Val v \<longrightarrow> department r' = Some v)"
      using f(5) by auto
    have pe: "(upd_performance_rating u = Unset \<longrightarrow> performance_rating r' = performance_rating r)
              \<and> (upd_performance_rating u = Null \<longrightarrow> performance_rating r' = None)
              \<and> (\<forall>v. upd_performance_rating u = Val v \<longrightarrow> performance_rating r' = Some v)"
      using f(6) by auto
    have sk: "(upd_skills u = Unset \<longrightarrow> skills r' = skills r)
              \<and> (upd_skills u = Null \<longrightarrow> skills r' = None)
              \<and> (\<forall>v. upd_skills u = Val v \<longrightarrow> skills r' = Some v)"
      using f(7) by auto
    show ?thesis
      by (intro conjI) (use stored f(8) f(9) n ro sa em de pe sk in simp_all)
  qed
  have p0: "snd (update_employee now i (only_salary s) rows)
           = (if s = salary r then rows
              else map (\<lambda>x. if id_emp x = id_emp r
                             then r\<lparr>salary := s, updated_at := Some now\<rparr> else x) rows)"
    by (simp add: update_only_salary [OF assms])
  show ?thesis
  proof (intro conjI)
    show "fst (update_employee now i (only_salary s) rows)
           = Inr (if s = salary r then r else r\<lparr>salary := s, updated_at := Some now\<rparr>)"
      by (fact p1)
    show "snd (update_employee now i (only_salary s) rows)
           = (if s = salary r then rows
              else map (\<lambda>x. if id_emp x = id_emp r
                             then r\<lparr>salary := s, updated_at := Some now\<rparr> else x) rows)"
      by (fact p0)
  qed (use p2 p3 in blast)+
qed

theorem update_employee_partial_witness:
  "fst (update_employee 500 1 (only_salary 95000) [ada, bob, cyd])
     = Inr (ada\<lparr>salary := 95000, updated_at := Some 500\<rparr>)
   \<and> snd (update_employee 500 1 (only_salary 95000) [ada, bob, cyd])
     = [ada\<lparr>salary := 95000, updated_at := Some 500\<rparr>, bob, cyd]
   \<and> first (by_id 1 (snd (update_employee 500 1 (only_salary 95000) [ada, bob, cyd])))
       = Some (ada\<lparr>salary := 95000, updated_at := Some 500\<rparr>)
   \<and> created_at (ada\<lparr>salary := 95000, updated_at := Some 500\<rparr>) = Some 100"
proof -
  have found: "first (by_id 1 [ada, bob, cyd]) = Some ada"
    by (simp add: by_id_def ada_def bob_def cyd_def)
  have ne: "(95000::real) \<noteq> salary ada \<and> created_at ada = Some 100 \<and> (100::int) \<le> 500"
    by (simp add: ada_def)
  note t = update_employee_partial [OF found, of 500 95000 100 "only_salary 95000"
      "ada\<lparr>salary := 95000, updated_at := Some 500\<rparr>"]
  from t ne have 1: "fst (update_employee 500 1 (only_salary 95000) [ada, bob, cyd])
     = Inr (ada\<lparr>salary := 95000, updated_at := Some 500\<rparr>)"
    by simp
  with t have 2: "first (by_id 1 (snd (update_employee 500 1 (only_salary 95000) [ada, bob, cyd])))
       = Some (ada\<lparr>salary := 95000, updated_at := Some 500\<rparr>)"
    by blast
  from t [THEN conjunct2, THEN conjunct1] ne
  have 3: "snd (update_employee 500 1 (only_salary 95000) [ada, bob, cyd])
     = [ada\<lparr>salary := 95000, updated_at := Some 500\<rparr>, bob, cyd]"
    by (simp add: ada_def bob_def cyd_def)
  from 1 2 3 show ?thesis by (simp add: ada_def)
qed

text \<open>
  The statement of C1 fails where the payload repeats the stored salary: Ada's salary is
  90000 and she was never updated; the update with \<^verbatim>\<open>{"salary": 90000}\<close> succeeds, returns
  her record as stored, and \<^verbatim>\<open>updated_at\<close> is still \<^verbatim>\<open>None\<close>. It fails as well for the
  payload \<^verbatim>\<open>{"salary": null}\<close>, which holds only \<^verbatim>\<open>salary\<close>: the update does not succeed.
\<close>

theorem update_employee_same_salary_counterexample:
  "update_employee 500 1 (only_salary 90000) [ada, bob, cyd] = (Inr ada, [ada, bob, cyd])
   \<and> created_at ada = Some 100 \<and> updated_at ada = None
   \<and> update_employee 500 1 (no_fields\<lparr>upd_salary := Null\<rparr>) [ada, bob, cyd]
       = (Inl IntegrityError, [ada, bob, cyd])"
  by (simp add: update_employee_def flush_update_def by_id_def only_salary_def no_fields_def
      ada_def bob_def cyd_def Let_def)

section \<open>Email uniqueness as an invariant\<close>

lemma unique_emails_Cons:
  "unique_emails (r # rows)
     \<longleftrightarrow> (email r = None \<or> email r \<notin> email ` set rows) \<and> unique_emails rows"
  by (auto simp: unique_emails_def)

lemma unique_emails_snoc:
  "unique_emails (rows @ [r])
     \<longleftrightarrow> (email r = None \<or> email r \<notin> email ` set rows) \<and> unique_emails rows"
  by (auto simp: unique_emails_def)

lemma unique_emails_filter: "unique_emails rows \<Longrightarrow> unique_emails (filter P rows)"
  by (induction rows) (auto simp: unique_emails_Cons)

lemma unique_emails_replace:
  assumes "primary_key rows" and "old \<in> set rows" and "unique_emails rows"
    and "email r = email old \<or> email r = None \<or> email r \<notin> email ` set rows"
  shows "unique_emails (map (\<lambda>x. if id_emp x = id_emp old then r else x) rows)"
  using assms
proof (induction rows)
  case Nil
  then show ?case by simp
next
  case (Cons x xs)
  let ?f = "\<lambda>x. if id_emp x = id_emp old then r else x"
  from Cons.prems(1) have pk: "primary_key xs" and fresh: "id_emp x \<notin> id_emp ` set xs"
    by (simp_all add: primary_key_def)
  from Cons.prems(3) have ux: "email x = None \<or> email x \<notin> email ` set xs" and uxs: "unique_emails xs"
    by (simp_all add: unique_emails_Cons)
  show ?case
  proof (cases "id_emp x = id_emp old")
    case True
    with fresh Cons.prems(2) have ox: "old = x" by auto
    have "id_emp y \<noteq> id_emp old" if "y \<in> set xs" for y
    proof
      assume "id_emp y = id_emp old"
      with True that have "id_emp x \<in> id_emp ` set xs" by (metis imageI)
      with fresh show False by contradiction
    qed
    then have "map ?f xs = xs"
      by (intro map_idI) simp
    moreover have "email r = None \<or> email r \<notin> email ` set xs"
      using Cons.prems(4) ux unfolding ox by auto
    ultimately show ?thesis using uxs True by (simp add: unique_emails_Cons)
  next
    case False
    with Cons.prems(2) have old: "old \<in> set xs" by auto
    have "email r = email old \<or> email r = None \<or> email r \<notin> email ` set xs"
      using Cons.prems(4) by auto
    with Cons.IH pk old uxs have IH: "unique_emails (map ?f xs)" by blast
    have sub: "email ` set (map ?f xs) \<subseteq> insert (email r) (email ` set xs)" by auto
    have "email x = None \<or> email x \<notin> email ` set (map ?f xs)"
    proof (cases "email x")
      case None
      then show ?thesis by simp
    next
      case (Some a)
      with ux have nx: "Some a \<notin> email ` set xs" by simp
      have "email r \<noteq> Some a"
        using Cons.prems(4) nx old Some by force
      with nx sub Some show ?thesis by auto
    qed
    with IH False show ?thesis by (simp add: unique_emails_Cons)
  qed
qed

lemma flush_insert_unique_emails:
  assumes "unique_emails rows" and "flush_insert now p rows = Inr (r, rows')"
  shows "unique_emails rows'"
  using assms
  by (auto simp: flush_insert_def unique_violation_def unique_emails_snoc new_row_def
      split: if_splits)

lemma flush_insert_primary_key:
  assumes "primary_key rows" and "flush_insert now p rows = Inr (r, rows')"
  shows "primary_key rows'"
  using assms next_id_fresh [of rows]
  by (auto simp: flush_insert_def primary_key_def new_row_def split: if_splits)

lemma flush_update_unique_emails:
  assumes "unique_emails rows" and "primary_key rows" and "old \<in> set rows"
    and "flush_update now old u rows = Inr (r, rows')"
  shows "unique_emails rows'"
proof -
  note f = flush_update_Inr [OF assms(4)]
  from f(10) show ?thesis
  proof
    assume "rows' = rows \<and> r = old"
    with assms(1) show ?thesis by simp
  next
    assume a: "rows' = map (\<lambda>x. if id_emp x = id_emp old then r else x) rows \<and> updated_at r = Some now"
    have "email r = email old \<or> email r = None \<or> email r \<notin> email ` set rows"
      using assms(4)
      by (auto simp: flush_update_def Let_def unique_violation_def split: if_splits option.splits)
    with assms(1-3) a show ?thesis by (simp add: unique_emails_replace)
  qed
qed

lemma flush_update_primary_key:
  assumes "primary_key rows" and "flush_update now old u rows = Inr (r, rows')"
  shows "primary_key rows'"
proof -
  note f = flush_update_Inr [OF assms(2)]
  from f(10) show ?thesis
  proof
    assume "rows' = rows \<and> r = old"
    with assms(1) show ?thesis by simp
  next
    assume a: "rows' = map (\<lambda>x. if id_emp x = id_emp old then r else x) rows \<and> updated_at r = Some now"
    have "map (id_emp \<circ> (\<lambda>x. if id_emp x = id_emp old then r else x)) rows = map id_emp rows"
      using f(8) by (intro map_cong) auto
    with a have eq: "map id_emp rows' = map id_emp rows" by (simp only: map_map)
    from assms(1) show ?thesis unfolding primary_key_def eq .
  qed
qed

lemma bulk_step_invariant:
  assumes "unique_emails (session_rows st) \<and> primary_key (session_rows st)"
  shows "unique_emails (session_rows (bulk_step now idx p st))
         \<and> primary_key (session_rows (bulk_step now idx p st))"
  using assms
  by (auto simp: bulk_step_def split: sum.splits
      dest: flush_insert_unique_emails flush_insert_primary_key)

lemma bulk_loop_invariant:
  assumes "unique_emails (session_rows st) \<and> primary_key (session_rows st)"
  shows "unique_emails (session_rows (bulk_loop clock idx ps st))
         \<and> primary_key (session_rows (bulk_loop clock idx ps st))"
  using assms
proof (induction ps arbitrary: idx st)
  case Nil
  then show ?case by simp
next
  case (Cons p ps)
  from Cons.prems have "unique_emails (session_rows (bulk_step (clock idx) idx p st))
         \<and> primary_key (session_rows (bulk_step (clock idx) idx p st))"
    by (rule bulk_step_invariant)
  then show ?case by (simp add: Cons.IH)
qed

lemma create_invariant:
  assumes "unique_emails rows" and "primary_key rows"
  shows "unique_emails (snd (create_employee now p rows))"
    and "primary_key (snd (create_employee now p rows))"
  using assms
  by (auto simp: create_employee_def split: sum.splits
      dest: flush_insert_unique_emails flush_insert_primary_key)

lemma update_invariant:
  assumes "unique_emails rows" and "primary_key rows"
  shows "unique_emails (snd (update_employee now i u rows))"
    and "primary_key (snd (update_employee now i u rows))"
  using assms
  by (auto simp: update_employee_def split: sum.splits option.splits
      dest: flush_update_unique_emails flush_update_primary_key first_by_id_SomeD(1))

lemma delete_invariant:
  assumes "unique_emails rows" and "primary_key rows"
  shows "unique_emails (snd (delete_employee i rows))"
    and "primary_key (snd (delete_employee i rows))"
  using assms
  by (auto simp: delete_employee_def unique_emails_filter primary_key_def distinct_map_filter
      split: option.splits)

lemma bulk_invariant:
  assumes "unique_emails rows" and "primary_key rows"
  shows "unique_emails (snd (bulk_create_employees clock ps rows))"
    and "primary_key (snd (bulk_create_employees clock ps rows))"
  using assms
    bulk_loop_invariant [of "\<lparr>session_rows = rows, created_ids = [], error_list = [], failed = False\<rparr>" clock 0 ps]
  by (simp_all add: bulk_create_employees_def Let_def)


text \<open>The invariant in the words of the claim: no two rows share an email that is not null.\<close>

lemma unique_emails_iff:
  "unique_emails rows \<longleftrightarrow>
     (\<forall>i<length rows. \<forall>j<length rows.
        i \<noteq> j \<longrightarrow> email (rows ! i) \<noteq> None \<longrightarrow> email (rows ! i) \<noteq> email (rows ! j))"
proof (induction rows)
  case Nil
  then show ?case by (simp add: unique_emails_def)
next
  case (Cons r rows)
  have mem: "email r \<in> email ` set rows \<longleftrightarrow> (\<exists>j<length rows. email (rows ! j) = email r)"
    by (metis (no_types, lifting) image_iff in_set_conv_nth)
  have "(email r = None \<or> email r \<notin> email ` set rows)
        \<longleftrightarrow> (\<forall>j<length rows. email r \<noteq> None \<longrightarrow> email r \<noteq> email (rows ! j))"
    unfolding mem by metis
  moreover have "(email r = None \<or> email r \<notin> email ` set rows)
        \<longleftrightarrow> (\<forall>i<length rows. email (rows ! i) \<noteq> None \<longrightarrow> email (rows ! i) \<noteq> email r)"
    unfolding mem by metis
  ultimately show ?case
    unfolding unique_emails_Cons Cons.IH
    by (simp add: All_less_Suc2) blast
qed

text \<open>
  The handlers' own checks come first: with emails that are not the empty string the unique
  index of the table is never what rejects a write.
\<close>

lemma create_employee_no_IntegrityError:
  assumes "email p \<noteq> Some []"
  shows "fst (create_employee now p rows) \<noteq> Inl IntegrityError"
proof (cases "\<exists>e. email p = Some e \<and> Some e \<in> email ` set rows")
  case True
  then show ?thesis using create_dup_iff [OF assms, of now rows] by simp
next
  case False
  then show ?thesis using create_ok [OF assms, of rows now] by simp
qed

lemma bulk_step_not_failed:
  assumes "email p \<noteq> Some []" and "\<not> failed st"
  shows "\<not> failed (bulk_step now idx p st)"
proof (cases "email p")
  case None
  with assms(2) show ?thesis
    by (simp add: bulk_step_def flush_insert_def unique_violation_def)
next
  case (Some a)
  with assms(1) have "a \<noteq> []" by simp
  with Some assms(2) show ?thesis
    by (simp add: bulk_step_def flush_insert_def unique_violation_def email_taken_iff)
qed

lemma bulk_loop_not_failed:
  assumes "\<forall>p \<in> set ps. email p \<noteq> Some []" and "\<not> failed st"
  shows "\<not> failed (bulk_loop clock idx ps st)"
  using assms
  by (induction ps arbitrary: idx st) (simp_all add: bulk_step_not_failed)

lemma bulk_create_employees_returns:
  assumes "\<forall>p \<in> set ps. email p \<noteq> Some []"
  shows "\<exists>res. fst (bulk_create_employees clock ps rows) = Inr res"
  using bulk_loop_not_failed [OF assms, of "\<lparr>session_rows = rows, created_ids = [], error_list = [], failed = False\<rparr>" clock 0]
  by (simp add: bulk_create_employees_def Let_def)

lemma flush_update_IntegrityError:
  assumes "flush_update now r u rows = Inl e"
  shows "upd_name u = Null \<or> upd_role u = Null \<or> upd_salary u = Null
         \<or> (\<exists>a. upd_email u = Val a \<and> email r \<noteq> Some a \<and> Some a \<in> email ` set rows)"
proof (rule ccontr)
  assume c: "\<not> ?thesis"
  have n: "\<exists>v. setattr f (Some x) = Some v" if "f \<noteq> Null" for f :: "'a payload_field" and x
    using that by (cases f) simp_all
  from c n obtain a b s where abs: "setattr (upd_name u) (Some (name r)) = Some a"
    "setattr (upd_role u) (Some (role r)) = Some b"
    "setattr (upd_salary u) (Some (salary r)) = Some s"
    by (metis (no_types))
  have "\<not> (setattr (upd_email u) (email r) \<noteq> email r
            \<and> unique_violation (setattr (upd_email u) (email r)) rows)"
    using c by (cases "upd_email u") (auto simp: unique_violation_def)
  with abs have "\<exists>res. flush_update now r u rows = Inr res"
    by (simp add: flush_update_def Let_def)
  with assms show False by simp
qed

lemma update_employee_IntegrityError:
  assumes "upd_email u \<noteq> Val []"
    and "fst (update_employee now i u rows) = Inl IntegrityError"
  shows "upd_name u = Null \<or> upd_role u = Null \<or> upd_salary u = Null"
proof -
  from assms(2) obtain r where r: "first (by_id i rows) = Some r"
    and g: "\<not> (truthy (attr (upd_email u)) \<and> attr (upd_email u) \<noteq> email r
             \<and> first (by_email (attr (upd_email u)) rows) \<noteq> None)"
    and f: "flush_update now r u rows = Inl IntegrityError"
    by (auto simp: update_employee_def split: option.splits if_splits sum.splits)
  from flush_update_IntegrityError [OF f] show ?thesis
  proof (elim disjE exE conjE)
    fix a assume a: "upd_email u = Val a" "email r \<noteq> Some a" "Some a \<in> email ` set rows"
    with assms(1) have "a \<noteq> []" by auto
    with a g show ?thesis by (simp add: email_taken_iff) 
  qed simp_all
qed

text \<open>
  Claim C2. In a table with distinct ids (the primary key) in which no two rows share an
  email that is not null, the table left by one creation, one update, one deletion or one
  bulk import, with any arguments, again has distinct ids and no two rows sharing an email
  that is not null.
\<close>

theorem email_uniqueness_invariant:
  assumes "unique_emails rows" and "primary_key rows"
  shows "unique_emails (snd (create_employee now p rows))
       \<and> unique_emails (snd (update_employee now i u rows))
       \<and> unique_emails (snd (delete_employee i rows))
       \<and> unique_emails (snd (bulk_create_employees clock ps rows))
       \<and> primary_key (snd (create_employee now p rows))
       \<and> primary_key (snd (update_employee now i u rows))
       \<and> primary_key (snd (delete_employee i rows))
       \<and> primary_key (snd (bulk_create_employees clock ps rows))"
  using create_invariant [OF assms] update_invariant [OF assms] delete_invariant [OF assms]
    bulk_invariant [OF assms]
  by simp

theorem email_uniqueness_invariant_witness:
  "unique_emails [ada, bob, cyd] \<and> primary_key [ada, bob, cyd]
   \<and> unique_emails (snd (create_employee 400 entry_A [ada, bob, cyd]))
   \<and> unique_emails (snd (update_employee 400 3 (only_email ''cyd@x.com'') [ada, bob, cyd]))
   \<and> unique_emails (snd (delete_employee 3 [ada, bob, cyd]))
   \<and> unique_emails (snd (bulk_create_employees (\<lambda>i. 400 + int i) [entry_A, entry_B] [ada, bob, cyd]))"
proof -
  have u: "unique_emails [ada, bob, cyd]"
    by (simp add: unique_emails_def ada_def bob_def cyd_def)
  have k: "primary_key [ada, bob, cyd]"
    by (simp add: primary_key_def ada_def bob_def cyd_def)
  from u k email_uniqueness_invariant [OF u k, of 400 entry_A 3 "only_email ''cyd@x.com''"
      "\<lambda>i. 400 + int i" "[entry_A, entry_B]"]
  show ?thesis by simp
qed

section \<open>Bulk import of a batch that repeats an email\<close>



section \<open>Listing\<close>

























section \<open>Empty filter parameters\<close>

lemma filter_department_selects:
  assumes "d \<noteq> []" and "e \<in> set (filter_department (Some d) query)"
  shows "department e = Some d"
  using assms by (simp add: filter_department_def)

text \<open>
  Claim C9. A list call whose \<^verbatim>\<open>search\<close> is the empty string returns what the call without
  \<^verbatim>\<open>search\<close> returns, and a call whose \<^verbatim>\<open>department\<close> is the empty string returns what the
  call without \<^verbatim>\<open>department\<close> returns. Every other department parameter \<open>d\<close> selects rows
  whose department is \<open>d\<close>, so no call with a department filter in force returns a row
  whose department is the empty string.
\<close>

theorem get_employees_empty_string:
  "get_employees skip limit (Some []) dept rows = get_employees skip limit None dept rows
   \<and> get_employees skip limit search (Some []) rows = get_employees skip limit search None rows
   \<and> (d \<noteq> [] \<and> fst (get_employees skip limit search (Some d) rows) = Inr res
        \<longrightarrow> (\<forall>e \<in> set (employees res). department e = Some d \<and> department e \<noteq> Some []))"
proof (intro conjI impI ballI)
  show "get_employees skip limit (Some []) dept rows = get_employees skip limit None dept rows"
    by (simp add: get_employees_def filter_search_def pattern_too_long_def)
  show "get_employees skip limit search (Some []) rows = get_employees skip limit search None rows"
    by (simp add: get_employees_def filter_department_def)
next
  fix e
  assume a: "d \<noteq> [] \<and> fst (get_employees skip limit search (Some d) rows) = Inr res"
    and e: "e \<in> set (employees res)"
  from a have "employees res =
      take (nat limit) (drop (nat skip) (filter_department (Some d) (filter_search search rows)))"
    by (auto simp: get_employees_def Let_def split: if_splits)
  with e have "e \<in> set (filter_department (Some d) (filter_search search rows))"
    by (metis in_set_takeD in_set_dropD)
  with a have d: "department e = Some d" by (intro filter_department_selects) simp_all
  then show "department e = Some d" .
  from d a show "department e \<noteq> Some []" by simp
qed

theorem get_employees_empty_string_witness:
  "get_employees 0 100 (Some []) (Some []) [ada, bob, cyd]
     = (Inr \<lparr>total_n = 3, employees = [ada, bob, cyd]\<rparr>, [ada, bob, cyd])
   \<and> department cyd = Some []
   \<and> fst (get_employees 0 100 None (Some ''R&D'') [ada, bob, cyd])
       = Inr \<lparr>total_n = 1, employees = [ada]\<rparr>
   \<and> department ada \<noteq> Some []"
proof -
  have n: "get_employees 0 100 None None [ada, bob, cyd]
     = (Inr \<lparr>total_n = 3, employees = [ada, bob, cyd]\<rparr>, [ada, bob, cyd])"
    by (simp add: get_employees_def filter_search_def filter_department_def Let_def
        pattern_too_long_def sqlite_int_def)
  have 1: "get_employees 0 100 (Some []) (Some []) [ada, bob, cyd]
     = (Inr \<lparr>total_n = 3, employees = [ada, bob, cyd]\<rparr>, [ada, bob, cyd])"
    using get_employees_empty_string [of 0 100 "Some []" "[ada, bob, cyd]" None]
      get_employees_empty_string [of 0 100 None "[ada, bob, cyd]" None] n
    by simp
  have r: "fst (get_employees 0 100 None (Some ''R&D'') [ada, bob, cyd])
       = Inr \<lparr>total_n = 1, employees = [ada]\<rparr>"
    by (simp add: get_employees_def filter_search_def filter_department_def Let_def
        pattern_too_long_def sqlite_int_def ada_def bob_def cyd_def)
  have ne: "''R&D'' \<noteq> []" by simp
  from get_employees_empty_string [where skip = 0 and limit = 100 and search = None
      and rows = "[ada, bob, cyd]" and d = "''R&D''"
      and res = "\<lparr>total_n = 1, employees = [ada]\<rparr>"] ne r
  have "\<forall>e \<in> set (employees \<lparr>total_n = 1, employees = [ada]\<rparr>).
          department e = Some ''R&D'' \<and> department e \<noteq> Some []"
    by blast
  then have "department ada \<noteq> Some []" by simp
  moreover have "department cyd = Some []" by (simp add: cyd_def)
  ultimately show ?thesis using 1 r by simp
qed

section \<open>Summary statistics\<close>

text \<open>
  Claim C7. On the empty table the summary is \<^verbatim>\<open>total_employees\<close> 0, \<^verbatim>\<open>average_salary\<close> 0,
  \<^verbatim>\<open>average_performance\<close> 0, \<^verbatim>\<open>growth_rate\<close> 0, \<^verbatim>\<open>recent_hires\<close> 0 and no department, at
  every time of the call; the summary is a value for every table (the model has no error
  branch), and the table after the call is the table before it.
\<close>

theorem get_employee_stats_empty:
  "get_employee_stats now [] =
     (\<lparr>total_employees = 0, average_salary = 0, average_performance = 0, growth_rate = 0,
       recent_hires = 0, departments = []\<rparr>, [])
   \<and> snd (get_employee_stats now rows) = rows"
  by (simp add: get_employee_stats_def sql_avg_def group_by_department_def
      List.map_filter_simps Let_def)

lemma departments_eq:
  "departments (fst (get_employee_stats now rows)) =
     map (\<lambda>k. (dept_label k, length (filter (\<lambda>e. department e = k) rows)))
       (sort (remdups (map department rows)))"
  by (simp add: get_employee_stats_def group_by_department_def Let_def comp_def)

lemma dept_label_not_empty: "dept_label k \<noteq> []"
  by (simp add: dept_label_def split: option.splits)

lemma dept_label_Unassigned: "dept_label None = ''Unassigned''" "dept_label (Some []) = ''Unassigned''"
  by (simp_all add: dept_label_def)

lemma group_keys: "set (sort (remdups (map department rows))) = department ` set rows"
  and group_keys_distinct: "distinct (sort (remdups (map department rows)))"
  by simp_all

lemma departments_entry:
  assumes "k \<in> department ` set rows"
  shows "\<exists>i < length (departments (fst (get_employee_stats now rows))).
           sort (remdups (map department rows)) ! i = k
           \<and> departments (fst (get_employee_stats now rows)) ! i
               = (dept_label k, length (filter (\<lambda>e. department e = k) rows))"
proof -
  let ?keys = "sort (remdups (map department rows))"
  from assms have "k \<in> set ?keys" by (simp only: group_keys)
  then obtain i where i: "i < length ?keys" "?keys ! i = k"
    unfolding in_set_conv_nth by blast
  then show ?thesis unfolding departments_eq by (intro exI [of _ i]) simp
qed

text \<open>
  Claim C10, as the code has it. The breakdown has one entry for every distinct stored value
  of \<^verbatim>\<open>department\<close>, \<^verbatim>\<open>NULL\<close> and the empty string being two values. No entry is labelled
  with the empty string. The records whose department is the empty string are counted,
  they alone, in an entry labelled \<^verbatim>\<open>Unassigned\<close>; the records whose department is null are
  counted, they alone, in an entry labelled \<^verbatim>\<open>Unassigned\<close>; where the table has records of
  both kinds these are two entries.
\<close>

theorem departments_unassigned:
  "(\<forall>entry \<in> set (departments (fst (get_employee_stats now rows))). fst entry \<noteq> [])
   \<and> length (departments (fst (get_employee_stats now rows))) = card (department ` set rows)
   \<and> (Some [] \<in> department ` set rows \<longrightarrow>
        (''Unassigned'', length (filter (\<lambda>e. department e = Some []) rows))
          \<in> set (departments (fst (get_employee_stats now rows))))
   \<and> (None \<in> department ` set rows \<longrightarrow>
        (''Unassigned'', length (filter (\<lambda>e. department e = None) rows))
          \<in> set (departments (fst (get_employee_stats now rows))))
   \<and> (Some [] \<in> department ` set rows \<and> None \<in> department ` set rows \<longrightarrow>
        (\<exists>i j. i \<noteq> j
           \<and> i < length (departments (fst (get_employee_stats now rows)))
           \<and> j < length (departments (fst (get_employee_stats now rows)))
           \<and> departments (fst (get_employee_stats now rows)) ! i
               = (''Unassigned'', length (filter (\<lambda>e. department e = Some []) rows))
           \<and> departments (fst (get_employee_stats now rows)) ! j
               = (''Unassigned'', length (filter (\<lambda>e. department e = None) rows))))"
proof -
  let ?deps = "departments (fst (get_employee_stats now rows))"
  have a: "\<forall>entry \<in> set ?deps. fst entry \<noteq> []"
    unfolding departments_eq by (auto simp: dept_label_not_empty)
  have b: "length ?deps = card (department ` set rows)"
  proof -
    have "length ?deps = length (sort (remdups (map department rows)))"
      unfolding departments_eq by simp
    also have "\<dots> = card (set (sort (remdups (map department rows))))"
      using group_keys_distinct by (rule distinct_card [symmetric])
    finally show ?thesis by (simp only: group_keys)
  qed
  have c: "(''Unassigned'', length (filter (\<lambda>e. department e = Some []) rows)) \<in> set ?deps"
    if "Some [] \<in> department ` set rows"
    using departments_entry [OF that, of now] by (auto simp: dept_label_Unassigned in_set_conv_nth)
  have d: "(''Unassigned'', length (filter (\<lambda>e. department e = None) rows)) \<in> set ?deps"
    if "None \<in> department ` set rows"
    using departments_entry [OF that, of now] by (auto simp: dept_label_Unassigned in_set_conv_nth)
  have e: "\<exists>i j. i \<noteq> j \<and> i < length ?deps \<and> j < length ?deps
           \<and> ?deps ! i = (''Unassigned'', length (filter (\<lambda>e. department e = Some []) rows))
           \<and> ?deps ! j = (''Unassigned'', length (filter (\<lambda>e. department e = None) rows))"
    if "Some [] \<in> department ` set rows \<and> None \<in> department ` set rows"
  proof -
    from that departments_entry [of "Some []" rows now] obtain i where
      i: "i < length ?deps" "sort (remdups (map department rows)) ! i = Some []"
         "?deps ! i = (dept_label (Some []), length (filter (\<lambda>e. department e = Some []) rows))"
      by blast
    from that departments_entry [of None rows now] obtain j where
      j: "j < length ?deps" "sort (remdups (map department rows)) ! j = None"
         "?deps ! j = (dept_label None, length (filter (\<lambda>e. department e = None) rows))"
      by blast
    from i(2) j(2) have "i \<noteq> j" by auto
    with i j show ?thesis by (auto simp: dept_label_Unassigned)
  qed
  from a b c d e show ?thesis by blast
qed

theorem departments_unassigned_witness:
  "departments (fst (get_employee_stats 1000 [ada, bob, cyd]))
     = [(''Unassigned'', 1), (''Unassigned'', 1), (''R&D'', 1)]
   \<and> (\<exists>i j. i \<noteq> j
        \<and> departments (fst (get_employee_stats 1000 [ada, bob, cyd])) ! i = (''Unassigned'', 1)
        \<and> departments (fst (get_employee_stats 1000 [ada, bob, cyd])) ! j = (''Unassigned'', 1))"
proof -
  have v: "departments (fst (get_employee_stats 1000 [ada, bob, cyd]))
     = [(''Unassigned'', 1), (''Unassigned'', 1), (''R&D'', 1)]"
    by code_simp
  have h: "Some [] \<in> department ` set [ada, bob, cyd] \<and> None \<in> department ` set [ada, bob, cyd]"
    by (simp add: ada_def bob_def cyd_def)
  have n: "length (filter (\<lambda>e. department e = Some []) [ada, bob, cyd]) = 1"
    "length (filter (\<lambda>e. department e = None) [ada, bob, cyd]) = 1"
    by (simp_all add: ada_def bob_def cyd_def)
  from departments_unassigned [of 1000 "[ada, bob, cyd]"] h
  have "\<exists>i j. i \<noteq> j
           \<and> i < length (departments (fst (get_employee_stats 1000 [ada, bob, cyd])))
           \<and> j < length (departments (fst (get_employee_stats 1000 [ada, bob, cyd])))
           \<and> departments (fst (get_employee_stats 1000 [ada, bob, cyd])) ! i
               = (''Unassigned'', length (filter (\<lambda>e. department e = Some []) [ada, bob, cyd]))
           \<and> departments (fst (get_employee_stats 1000 [ada, bob, cyd])) ! j
               = (''Unassigned'', length (filter (\<lambda>e. department e = None) [ada, bob, cyd]))"
    by blast
  then have "\<exists>i j. i \<noteq> j
        \<and> departments (fst (get_employee_stats 1000 [ada, bob, cyd])) ! i = (''Unassigned'', 1)
        \<and> departments (fst (get_employee_stats 1000 [ada, bob, cyd])) ! j = (''Unassigned'', 1)"
    unfolding n by blast
  with v show ?thesis by blast
qed

text \<open>
  The statement of C10 fails on a table with one record without department (Bob) and one
  with the empty department (Cyd): the breakdown has two entries labelled \<^verbatim>\<open>Unassigned\<close>,
  each counting one record, whereas it has a single entry counting two once Cyd's
  department is null as well.
\<close>

theorem departments_unassigned_counterexample:
  "department bob = None \<and> department cyd = Some []
   \<and> departments (fst (get_employee_stats 1000 [bob, cyd]))
       = [(''Unassigned'', 1), (''Unassigned'', 1)]
   \<and> departments (fst (get_employee_stats 1000 [bob, cyd\<lparr>department := None\<rparr>]))
       = [(''Unassigned'', 2)]"
  by code_simp

section \<open>CSV export\<close>

lemma writerow_header:
  "writerow header =
     ''ID,Name,Email,Role,Department,Salary,Performance Rating,Skills,Created At''
     @ [CHR 0x0D, CHR 0x0A]"
  by code_simp

lemma double_quotes_eq:
  "concat (map (\<lambda>c. if c = CHR 0x22 then [c, c] else [c]) s) = double_quotes s"
  by (induction s) simp_all

lemma csv_field_eq: "csv_field s = csv_value s"
proof -
  have "needs_quotes s \<longleftrightarrow> set s \<inter> {CHR '','', CHR 0x22, CHR 0x0D, CHR 0x0A} \<noteq> {}"
    unfolding needs_quotes_def by blast
  then show ?thesis by (simp add: csv_field_def csv_value_def double_quotes_eq)
qed

lemma join_fields_eq:
  "join_fields (map csv_field row) @ [CHR 0x0D, CHR 0x0A] = csv_record row"
  by (induction row rule: csv_record.induct) (simp_all add: csv_field_eq)

lemma writerow_eq: "row \<noteq> [[]] \<Longrightarrow> writerow row = csv_record row"
  by (simp add: writerow_def join_fields_eq)

lemma employee_cells_eq:
  "map (cell_text sf st) (employee_cells e) = record_fields sf st e"
  by (simp add: employee_cells_def record_fields_def or_empty_def split: option.splits)

lemma record_fields_length: "length (record_fields sf st e) = 9"
  by (simp add: record_fields_def)

lemma writerow_record: "writerow (record_fields sf st e) = csv_record (record_fields sf st e)"
proof (rule writerow_eq)
  show "record_fields sf st e \<noteq> [[]]"
    using record_fields_length [of sf st e] by auto
qed

lemma decimal_snoc: "decimal (ds @ [c]) = 10 * decimal ds + (of_char c - 48)"
  by (simp add: decimal_def)

lemma decimal_digits: "decimal (digits n) = n"
proof (induction n rule: digits.induct)
  case (1 n)
  show ?case
  proof (cases "n < 10")
    case True
    then have "of_char (char_of (48 + n) :: char) = 48 + n"
      by (simp add: of_char_of)
    with True show ?thesis by (simp add: digits.simps [of n] decimal_def)
  next
    case False
    have "n mod 10 < 10" by simp
    then have "of_char (char_of (48 + n mod 10) :: char) = 48 + n mod 10"
      by (simp add: of_char_of)
    with False 1 show ?thesis by (simp add: digits.simps [of n] decimal_snoc)
  qed
qed

lemma decimal_str_int: "0 \<le> i \<Longrightarrow> decimal (str_int i) = nat i"
  by (simp add: str_int_def decimal_digits)

lemma digit_chars:
  "char_of (48::nat) = CHR ''0''" "char_of (49::nat) = CHR ''1''" "char_of (50::nat) = CHR ''2''"
  "char_of (51::nat) = CHR ''3''" "char_of (52::nat) = CHR ''4''" "char_of (53::nat) = CHR ''5''"
  "char_of (54::nat) = CHR ''6''" "char_of (55::nat) = CHR ''7''" "char_of (56::nat) = CHR ''8''"
  "char_of (57::nat) = CHR ''9''"
  by code_simp+

text \<open>
  Claim C8. For every table the body of the export is the header row, whose nine fields are
  ID, Name, Email, Role, Department, Salary, Performance Rating, Skills and Created At
  (joined by commas, ended by \<^verbatim>\<open>\r\n\<close>), followed by one row per stored record, in table
  order. The row of a record is the comma-separated text of its nine fields: the id in
  decimal, the name, the email, the role, the department, the salary, the performance
  rating, the skills and the time of creation, where an absent email, department or skills
  (and an absent rating or time) is the empty string. On the empty table the body is
  exactly the header row. The table is unchanged.
\<close>

theorem export_employees_csv_rows:
  "fst (export_employees_csv sf st rows) =
     ''ID,Name,Email,Role,Department,Salary,Performance Rating,Skills,Created At''
     @ [CHR 0x0D, CHR 0x0A]
     @ concat (map (\<lambda>e. csv_record (record_fields sf st e)) rows)
   \<and> fst (export_employees_csv sf st []) =
       ''ID,Name,Email,Role,Department,Salary,Performance Rating,Skills,Created At''
       @ [CHR 0x0D, CHR 0x0A]
   \<and> snd (export_employees_csv sf st rows) = rows
   \<and> length (export_rows sf st rows) = Suc (length rows)
   \<and> export_rows sf st rows ! 0 =
       [''ID'', ''Name'', ''Email'', ''Role'', ''Department'', ''Salary'',
        ''Performance Rating'', ''Skills'', ''Created At'']
   \<and> (\<forall>k < length rows.
        export_rows sf st rows ! Suc k = record_fields sf st (rows ! k)
        \<and> length (record_fields sf st (rows ! k)) = 9
        \<and> (0 \<le> id_emp (rows ! k)
             \<longrightarrow> decimal (record_fields sf st (rows ! k) ! 0) = nat (id_emp (rows ! k)))
        \<and> record_fields sf st (rows ! k) ! 1 = name (rows ! k)
        \<and> record_fields sf st (rows ! k) ! 3 = role (rows ! k)
        \<and> record_fields sf st (rows ! k) ! 5 = sf (salary (rows ! k))
        \<and> (\<forall>a. email (rows ! k) = Some a \<longrightarrow> record_fields sf st (rows ! k) ! 2 = a)
        \<and> (\<forall>d. department (rows ! k) = Some d \<longrightarrow> record_fields sf st (rows ! k) ! 4 = d)
        \<and> (\<forall>v. performance_rating (rows ! k) = Some v
                 \<longrightarrow> record_fields sf st (rows ! k) ! 6 = sf v)
        \<and> (\<forall>s. skills (rows ! k) = Some s \<longrightarrow> record_fields sf st (rows ! k) ! 7 = s)
        \<and> (\<forall>t. created_at (rows ! k) = Some t \<longrightarrow> record_fields sf st (rows ! k) ! 8 = st t)
        \<and> (email (rows ! k) = None \<longrightarrow> record_fields sf st (rows ! k) ! 2 = [])
        \<and> (department (rows ! k) = None \<longrightarrow> record_fields sf st (rows ! k) ! 4 = [])
        \<and> (performance_rating (rows ! k) = None \<longrightarrow> record_fields sf st (rows ! k) ! 6 = [])
        \<and> (skills (rows ! k) = None \<longrightarrow> record_fields sf st (rows ! k) ! 7 = [])
        \<and> (created_at (rows ! k) = None \<longrightarrow> record_fields sf st (rows ! k) ! 8 = []))"
proof -
  have rows_eq: "export_rows sf st rows = header # map (record_fields sf st) rows"
    by (simp add: export_rows_def employee_cells_eq)
  have body: "fst (export_employees_csv sf st rows) =
      writerow header @ concat (map (\<lambda>e. csv_record (record_fields sf st e)) rows)"
    by (simp add: export_employees_csv_def rows_eq comp_def writerow_record)
  have a: "fst (export_employees_csv sf st rows) =
     ''ID,Name,Email,Role,Department,Salary,Performance Rating,Skills,Created At''
     @ [CHR 0x0D, CHR 0x0A]
     @ concat (map (\<lambda>e. csv_record (record_fields sf st e)) rows)"
    unfolding body writerow_header by simp
  have b: "fst (export_employees_csv sf st []) =
       ''ID,Name,Email,Role,Department,Salary,Performance Rating,Skills,Created At''
       @ [CHR 0x0D, CHR 0x0A]"
  proof -
    have "fst (export_employees_csv sf st []) = writerow header"
      by (simp add: export_employees_csv_def export_rows_def)
    then show ?thesis by (simp only: writerow_header)
  qed
  have c: "snd (export_employees_csv sf st rows) = rows"
    by (simp add: export_employees_csv_def)
  have d: "length (export_rows sf st rows) = Suc (length rows)"
    by (simp add: rows_eq)
  have e: "export_rows sf st rows ! 0 =
       [''ID'', ''Name'', ''Email'', ''Role'', ''Department'', ''Salary'',
        ''Performance Rating'', ''Skills'', ''Created At'']"
    by (simp add: rows_eq header_def)
  have f: "export_rows sf st rows ! Suc k = record_fields sf st (rows ! k)"
    if "k < length rows" for k
    using that by (simp add: rows_eq)
  have g: "length (record_fields sf st r) = 9
        \<and> (0 \<le> id_emp r \<longrightarrow> decimal (record_fields sf st r ! 0) = nat (id_emp r))
        \<and> record_fields sf st r ! 1 = name r
        \<and> record_fields sf st r ! 3 = role r
        \<and> record_fields sf st r ! 5 = sf (salary r)
        \<and> (\<forall>a. email r = Some a \<longrightarrow> record_fields sf st r ! 2 = a)
        \<and> (\<forall>d. department r = Some d \<longrightarrow> record_fields sf st r ! 4 = d)
        \<and> (\<forall>v. performance_rating r = Some v \<longrightarrow> record_fields sf st r ! 6 = sf v)
        \<and> (\<forall>s. skills r = Some s \<longrightarrow> record_fields sf st r ! 7 = s)
        \<and> (\<forall>t. created_at r = Some t \<longrightarrow> record_fields sf st r ! 8 = st t)
        \<and> (email r = None \<longrightarrow> record_fields sf st r ! 2 = [])
        \<and> (department r = None \<longrightarrow> record_fields sf st r ! 4 = [])
        \<and> (performance_rating r = None \<longrightarrow> record_fields sf st r ! 6 = [])
        \<and> (skills r = None \<longrightarrow> record_fields sf st r ! 7 = [])
        \<and> (created_at r = None \<longrightarrow> record_fields sf st r ! 8 = [])" for r
    by (simp add: record_fields_def decimal_str_int)
  have h: "\<forall>k < length rows.
        export_rows sf st rows ! Suc k = record_fields sf st (rows ! k)
        \<and> length (record_fields sf st (rows ! k)) = 9
        \<and> (0 \<le> id_emp (rows ! k)
             \<longrightarrow> decimal (record_fields sf st (rows ! k) ! 0) = nat (id_emp (rows ! k)))
        \<and> record_fields sf st (rows ! k) ! 1 = name (rows ! k)
        \<and> record_fields sf st (rows ! k) ! 3 = role (rows ! k)
        \<and> record_fields sf st (rows ! k) ! 5 = sf (salary (rows ! k))
        \<and> (\<forall>a. email (rows ! k) = Some a \<longrightarrow> record_fields sf st (rows ! k) ! 2 = a)
        \<and> (\<forall>d. department (rows ! k) = Some d \<longrightarrow> record_fields sf st (rows ! k) ! 4 = d)
        \<and> (\<forall>v. performance_rating (rows ! k) = Some v
                 \<longrightarrow> record_fields sf st (rows ! k) ! 6 = sf v)
        \<and> (\<forall>s. skills (rows ! k) = Some s \<longrightarrow> record_fields sf st (rows ! k) ! 7 = s)
        \<and> (\<forall>t. created_at (rows ! k) = Some t \<longrightarrow> record_fields sf st (rows ! k) ! 8 = st t)
        \<and> (email (rows ! k) = None \<longrightarrow> record_fields sf st (rows ! k) ! 2 = [])
        \<and> (department (rows ! k) = None \<longrightarrow> record_fields sf st (rows ! k) ! 4 = [])
        \<and> (performance_rating (rows ! k) = None \<longrightarrow> record_fields sf st (rows ! k) ! 6 = [])
        \<and> (skills (rows ! k) = None \<longrightarrow> record_fields sf st (rows ! k) ! 7 = [])
        \<and> (created_at (rows ! k) = None \<longrightarrow> record_fields sf st (rows ! k) ! 8 = [])"
  proof (intro allI impI)
    fix k assume "k < length rows"
    then have r: "export_rows sf st rows ! Suc k = record_fields sf st (rows ! k)" by (rule f)
    from r g [of "rows ! k"] show "export_rows sf st rows ! Suc k = record_fields sf st (rows ! k)
        \<and> length (record_fields sf st (rows ! k)) = 9
        \<and> (0 \<le> id_emp (rows ! k)
             \<longrightarrow> decimal (record_fields sf st (rows ! k) ! 0) = nat (id_emp (rows ! k)))
        \<and> record_fields sf st (rows ! k) ! 1 = name (rows ! k)
        \<and> record_fields sf st (rows ! k) ! 3 = role (rows ! k)
        \<and> record_fields sf st (rows ! k) ! 5 = sf (salary (rows ! k))
        \<and> (\<forall>a. email (rows ! k) = Some a \<longrightarrow> record_fields sf st (rows ! k) ! 2 = a)
        \<and> (\<forall>d. department (rows ! k) = Some d \<longrightarrow> record_fields sf st (rows ! k) ! 4 = d)
        \<and> (\<forall>v. performance_rating (rows ! k) = Some v
                 \<longrightarrow> record_fields sf st (rows ! k) ! 6 = sf v)
        \<and> (\<forall>s. skills (rows ! k) = Some s \<longrightarrow> record_fields sf st (rows ! k) ! 7 = s)
        \<and> (\<forall>t. created_at (rows ! k) = Some t \<longrightarrow> record_fields sf st (rows ! k) ! 8 = st t)
        \<and> (email (rows ! k) = None \<longrightarrow> record_fields sf st (rows ! k) ! 2 = [])
        \<and> (department (rows ! k) = None \<longrightarrow> record_fields sf st (rows ! k) ! 4 = [])
        \<and> (performance_rating (rows ! k) = None \<longrightarrow> record_fields sf st (rows ! k) ! 6 = [])
        \<and> (skills (rows ! k) = None \<longrightarrow> record_fields sf st (rows ! k) ! 7 = [])
        \<and> (created_at (rows ! k) = None \<longrightarrow> record_fields sf st (rows ! k) ! 8 = [])"
      by (rule conjI)
  qed
  show ?thesis
    by (rule conjI [OF a], rule conjI [OF b], rule conjI [OF c], rule conjI [OF d],
        rule conjI [OF e], rule h)
qed

theorem export_employees_csv_rows_witness:
  "fst (export_employees_csv demo_str_float demo_str_datetime [ada, cyd]) =
     ''ID,Name,Email,Role,Department,Salary,Performance Rating,Skills,Created At''
     @ [CHR 0x0D, CHR 0x0A]
     @ ''1,Ada,ada@x.com,Engineer,R&D,90000.0,4.0,'' @ [CHR 0x22] @ ''ML, C'' @ [CHR 0x22]
     @ '',t=100'' @ [CHR 0x0D, CHR 0x0A]
     @ ''3,Cyd,,Clerk,,50000.0,,,t=300'' @ [CHR 0x0D, CHR 0x0A]
   \<and> email cyd = None
   \<and> record_fields demo_str_float demo_str_datetime cyd ! 2 = []"
proof -
  have ra: "csv_record (record_fields demo_str_float demo_str_datetime ada) =
      ''1,Ada,ada@x.com,Engineer,R&D,90000.0,4.0,'' @ [CHR 0x22] @ ''ML, C'' @ [CHR 0x22]
      @ '',t=100'' @ [CHR 0x0D, CHR 0x0A]"
    by (simp add: record_fields_def csv_value_def demo_str_float_def demo_str_datetime_def
        ada_def str_int_def digits.simps digit_chars)
  have rc: "csv_record (record_fields demo_str_float demo_str_datetime cyd) =
      ''3,Cyd,,Clerk,,50000.0,,,t=300'' @ [CHR 0x0D, CHR 0x0A]"
    by (simp add: record_fields_def csv_value_def demo_str_float_def demo_str_datetime_def
        cyd_def str_int_def digits.simps digit_chars)
  have k: "1 < length [ada, cyd]" by simp
  have v: "[ada, cyd] ! 1 = cyd" by simp
  have c: "email cyd = None" by (simp add: cyd_def)
  note t = export_employees_csv_rows [of demo_str_float demo_str_datetime "[ada, cyd]"]
  from t have 1: "fst (export_employees_csv demo_str_float demo_str_datetime [ada, cyd]) =
     ''ID,Name,Email,Role,Department,Salary,Performance Rating,Skills,Created At''
     @ [CHR 0x0D, CHR 0x0A]
     @ concat (map (\<lambda>e. csv_record (record_fields demo_str_float demo_str_datetime e)) [ada, cyd])"
    by (rule conjunct1)
  note t5 = t [THEN conjunct2, THEN conjunct2, THEN conjunct2, THEN conjunct2, THEN conjunct2,
      rule_format, OF k]
  have "email ([ada, cyd] ! 1) = None
      \<longrightarrow> record_fields demo_str_float demo_str_datetime ([ada, cyd] ! 1) ! 2 = []"
    using t5 by (intro impI) simp
  with c have 2: "record_fields demo_str_float demo_str_datetime cyd ! 2 = []"
    unfolding v by blast
  from 1 have "fst (export_employees_csv demo_str_float demo_str_datetime [ada, cyd]) =
     ''ID,Name,Email,Role,Department,Salary,Performance Rating,Skills,Created At''
     @ [CHR 0x0D, CHR 0x0A]
     @ ''1,Ada,ada@x.com,Engineer,R&D,90000.0,4.0,'' @ [CHR 0x22] @ ''ML, C'' @ [CHR 0x22]
     @ '',t=100'' @ [CHR 0x0D, CHR 0x0A]
     @ ''3,Cyd,,Clerk,,50000.0,,,t=300'' @ [CHR 0x0D, CHR 0x0A]"
    by (simp add: ra rc)
  with c 2 show ?thesis by blast
qed

end
